theory Spec2Isabelle
  imports Complex_Main "HOL-Library.AList"
begin

section \<open>Data model (models.py)\<close>

text \<open>
  Points in time (\<open>datetime\<close>) are integers counting microseconds, the resolution of
  Python's \<open>datetime\<close>; a \<open>timedelta(seconds=n)\<close> is \<open>n * 1000000\<close>. The range limits
  of \<open>datetime\<close> (years 1 to 9999) are not modelled. Every read of the clock
  (\<open>datetime.now()\<close>) is an explicit argument of the function that reads it.
\<close>

type_synonym datetime = int

definition seconds :: "int \<Rightarrow> int" where
  "seconds n = n * 1000000"

datatype MarketType = SPOT | FUTURES

datatype AlertType =
    PRICE_PUMP | PRICE_DUMP | SPREAD_HIGH | SPREAD_LOW | VOLUME_SPIKE
  | FUNDING_HIGH | FUNDING_LOW | BIG_BID_ORDER | BIG_ASK_ORDER

datatype AlertLevel = INFO | WARNING | CRITICAL | EXTREME

fun priority :: "AlertLevel \<Rightarrow> int" where
  "priority INFO = 1"
| "priority WARNING = 2"
| "priority CRITICAL = 3"
| "priority EXTREME = 4"

datatype AlertStatus = PENDING | SENT | CONFIRMED

section \<open>Cooldown and escalation (alert\_engine.py)\<close>

text \<open>
  \<open>AlertEngine.cooldowns\<close> is a three-level dictionary
  \<open>{user_id: {symbol: {alert_type: (last_time, last_level)}}}\<close>. Only the fields of
  the engine that the cooldown logic reads or writes are kept.
\<close>

type_synonym cooldown_cell = "datetime \<times> AlertLevel"

type_synonym cooldown_table = "string \<rightharpoonup> (string \<rightharpoonup> (AlertType \<rightharpoonup> cooldown_cell))"

record AlertEngine =
  cooldowns :: cooldown_table
  escalation_count :: nat

text \<open>The cell of a (user, symbol, alert type): present only when all three levels are.\<close>

definition cell :: "AlertEngine \<Rightarrow> string \<Rightarrow> string \<Rightarrow> AlertType \<Rightarrow> cooldown_cell option" where
  "cell eng user_id symbol alert_type =
     (case cooldowns eng user_id of
        None \<Rightarrow> None
      | Some by_symbol \<Rightarrow>
          (case by_symbol symbol of
             None \<Rightarrow> None
           | Some by_type \<Rightarrow> by_type alert_type))"

text \<open>
  \<open>_check_cooldown_and_escalation\<close>: returns \<open>(should_send, is_escalation)\<close> and the
  engine, whose escalation counter the escalation branch increments. \<open>now\<close> is the clock
  read on the line that computes \<open>in_cooldown\<close>.
\<close>

definition check_cooldown_and_escalation ::
  "AlertEngine \<Rightarrow> datetime \<Rightarrow> string \<Rightarrow> string \<Rightarrow> AlertType \<Rightarrow> AlertLevel \<Rightarrow> int
     \<Rightarrow> (bool \<times> bool) \<times> AlertEngine" where
  "check_cooldown_and_escalation eng now user_id symbol alert_type current_level cooldown_seconds =
     (case cooldowns eng user_id of
        None \<Rightarrow> ((True, False), eng)
      | Some by_symbol \<Rightarrow>
          (case by_symbol symbol of
             None \<Rightarrow> ((True, False), eng)
           | Some by_type \<Rightarrow>
               (case by_type alert_type of
                  None \<Rightarrow> ((True, False), eng)
                | Some (last_time, last_level) \<Rightarrow>
                    (let in_cooldown = (now - last_time < seconds cooldown_seconds) in
                     if \<not> in_cooldown then ((True, False), eng)
                     else if priority current_level > priority last_level
                       then ((True, True), eng\<lparr>escalation_count := escalation_count eng + 1\<rparr>)
                     else ((False, False), eng)))))"

text \<open>
  \<open>_set_cooldown\<close>: the table is a \<open>defaultdict\<close> of \<open>defaultdict(dict)\<close>, so the
  assignment creates the missing levels. \<open>now\<close> is the clock read of the assignment.
\<close>

definition set_cooldown ::
  "AlertEngine \<Rightarrow> datetime \<Rightarrow> string \<Rightarrow> string \<Rightarrow> AlertType \<Rightarrow> AlertLevel \<Rightarrow> AlertEngine" where
  "set_cooldown eng now user_id symbol alert_type level =
     (let by_symbol = (case cooldowns eng user_id of None \<Rightarrow> Map.empty | Some m \<Rightarrow> m);
          by_type = (case by_symbol symbol of None \<Rightarrow> Map.empty | Some m \<Rightarrow> m)
      in eng\<lparr>cooldowns :=
               (cooldowns eng)(user_id \<mapsto> by_symbol(symbol \<mapsto> by_type(alert_type \<mapsto> (now, level))))\<rparr>)"

text \<open>
  Every call site of the check (price pump and dump, volume spike, spread, funding, big bid
  and big ask order) has the same shape:
  \<^verbatim>\<open>
  should_send, is_escalation = self._check_cooldown_and_escalation(
      user_id, symbol, alert_type, level, user_config.cooldown_seconds)
  if should_send:
      self._set_cooldown(user_id, symbol, alert_type, level)
      await self._create_..._alert(..., level, is_escalation)
  \<close>
  \<open>candidate\<close> is that shape. Its result is \<open>Some is_escalation\<close> when the alert is
  created (it fires) and \<open>None\<close> when it is suppressed. The clock is read twice, once by
  the check (\<open>now_check\<close>) and once by the assignment (\<open>now_set\<close>).
\<close>

definition candidate ::
  "AlertEngine \<Rightarrow> datetime \<Rightarrow> datetime \<Rightarrow> string \<Rightarrow> string \<Rightarrow> AlertType \<Rightarrow> AlertLevel \<Rightarrow> int
     \<Rightarrow> bool option \<times> AlertEngine" where
  "candidate eng now_check now_set user_id symbol alert_type level cooldown_seconds =
     (case check_cooldown_and_escalation eng now_check user_id symbol alert_type level cooldown_seconds of
        ((should_send, is_escalation), eng1) \<Rightarrow>
          if should_send
          then (Some is_escalation, set_cooldown eng1 now_set user_id symbol alert_type level)
          else (None, eng1))"

text \<open>
  A sequence of candidate firings for one (user, symbol, alert type): each candidate carries
  its two clock reads, its classified level and the cooldown configured when it arrives.
\<close>

record firing =
  at_check :: datetime
  at_set :: datetime
  fired_level :: AlertLevel
  cooldown :: int

fun candidates :: "AlertEngine \<Rightarrow> string \<Rightarrow> string \<Rightarrow> AlertType \<Rightarrow> firing list \<Rightarrow> AlertEngine" where
  "candidates eng user_id symbol alert_type [] = eng"
| "candidates eng user_id symbol alert_type (f # fs) =
     candidates
       (snd (candidate eng (at_check f) (at_set f) user_id symbol alert_type (fired_level f) (cooldown f)))
       user_id symbol alert_type fs"

text \<open>
  Every candidate of the sequence arrives while the cooldown of the cell, as it stands when
  the candidate arrives, has not expired.
\<close>

fun inside_cooldown :: "AlertEngine \<Rightarrow> string \<Rightarrow> string \<Rightarrow> AlertType \<Rightarrow> firing list \<Rightarrow> bool" where
  "inside_cooldown eng user_id symbol alert_type [] = True"
| "inside_cooldown eng user_id symbol alert_type (f # fs) =
     (case cell eng user_id symbol alert_type of
        None \<Rightarrow> False
      | Some (last_time, last_level) \<Rightarrow>
          at_check f - last_time < seconds (cooldown f)
          \<and> inside_cooldown
               (snd (candidate eng (at_check f) (at_set f) user_id symbol alert_type (fired_level f) (cooldown f)))
               user_id symbol alert_type fs)"

text \<open>An engine that has fired nothing yet.\<close>

definition fresh_engine :: AlertEngine where
  "fresh_engine = \<lparr>cooldowns = Map.empty, escalation_count = 0\<rparr>"

section \<open>Big-order thresholds (config.py)\<close>

text \<open>
  Python's \<open>float\<close> is modelled by the real numbers: rounding, infinities and NaN are left
  out. \<open>BigOrderThreshold\<close> keeps its eight threshold fields; \<open>enabled\<close>,
  \<open>max_price_deviation\<close> and \<open>depth_levels\<close> are not read by the functions below.
\<close>

record BigOrderThreshold =
  min_order_small_cap :: real
  min_order_mid_cap :: real
  min_order_large_cap :: real
  min_order_mega_cap :: real
  ratio_small_cap :: real
  ratio_mid_cap :: real
  ratio_large_cap :: real
  ratio_mega_cap :: real

text \<open>The field defaults of the dataclass (also the values of the MODERATE preset).\<close>

definition default_BigOrderThreshold :: BigOrderThreshold where
  "default_BigOrderThreshold =
     \<lparr>min_order_small_cap = 500000, min_order_mid_cap = 2000000,
      min_order_large_cap = 5000000, min_order_mega_cap = 10000000,
      ratio_small_cap = 20, ratio_mid_cap = 10, ratio_large_cap = 5, ratio_mega_cap = 2\<rparr>"

text \<open>
  The thresholds of the CONSERVATIVE and AGGRESSIVE presets (\<open>PRESET_CONFIGS\<close>), which
  \<open>set_profile\<close> installs as the user's \<open>big_order\<close>.
\<close>

definition conservative_BigOrderThreshold :: BigOrderThreshold where
  "conservative_BigOrderThreshold =
     \<lparr>min_order_small_cap = 1000000, min_order_mid_cap = 5000000,
      min_order_large_cap = 10000000, min_order_mega_cap = 20000000,
      ratio_small_cap = 20, ratio_mid_cap = 10, ratio_large_cap = 5, ratio_mega_cap = 2\<rparr>"

definition aggressive_BigOrderThreshold :: BigOrderThreshold where
  "aggressive_BigOrderThreshold =
     \<lparr>min_order_small_cap = 300000, min_order_mid_cap = 1000000,
      min_order_large_cap = 3000000, min_order_mega_cap = 5000000,
      ratio_small_cap = 20, ratio_mid_cap = 10, ratio_large_cap = 5, ratio_mega_cap = 2\<rparr>"

definition get_threshold :: "BigOrderThreshold \<Rightarrow> real \<Rightarrow> real \<times> real" where
  "get_threshold cfg volume_24h =
     (if volume_24h < 10000000 then (min_order_small_cap cfg, ratio_small_cap cfg)
      else if volume_24h < 100000000 then (min_order_mid_cap cfg, ratio_mid_cap cfg)
      else if volume_24h < 1000000000 then (min_order_large_cap cfg, ratio_large_cap cfg)
      else (min_order_mega_cap cfg, ratio_mega_cap cfg))"

definition is_big_order :: "BigOrderThreshold \<Rightarrow> real \<Rightarrow> real \<Rightarrow> bool" where
  "is_big_order cfg order_value volume_24h =
     (if volume_24h \<le> 0 then order_value \<ge> min_order_small_cap cfg
      else (case get_threshold cfg volume_24h of
              (abs_threshold, ratio_threshold) \<Rightarrow>
                (let ratio_value = volume_24h * ratio_threshold / 100;
                     threshold = max abs_threshold ratio_value
                 in order_value \<ge> threshold)))"

text \<open>The tier table as the specification words it.\<close>

definition tier_abs :: "real \<Rightarrow> real" where
  "tier_abs V = (if V < 10000000 then 500000 else if V < 100000000 then 2000000
                 else if V < 1000000000 then 5000000 else 10000000)"

definition tier_ratio :: "real \<Rightarrow> real" where
  "tier_ratio V = (if V < 10000000 then 20 else if V < 100000000 then 10
                   else if V < 1000000000 then 5 else 2)"

section \<open>Price history (models.py)\<close>

datatype py_error = ZeroDivisionError | ValueError | KeyError

text \<open>
  \<open>PriceHistory.prices\<close> is a deque of \<open>(datetime, price)\<close> pairs, oldest first;
  \<open>t.timestamp()\<close> turns a \<open>datetime\<close> into seconds.
\<close>

record PriceHistory =
  history_symbol :: string
  history_market_type :: MarketType
  prices :: "(datetime \<times> real) list"
  volumes :: "(datetime \<times> real) list"

definition timestamp :: "datetime \<Rightarrow> real" where
  "timestamp t = real_of_int t / 1000000"

text \<open>Python's \<open>/\<close> on floats raises on a zero divisor.\<close>

definition py_truediv :: "real \<Rightarrow> real \<Rightarrow> py_error + real" where
  "py_truediv a b = (if b = 0 then Inl ZeroDivisionError else Inr (a / b))"

text \<open>
  The scanning loop of \<open>get_change\<close>, with \<open>old_price\<close> as accumulator:
  \<^verbatim>\<open>
  for t, p in self.prices:
      if t.timestamp() <= cutoff: old_price = p
      else: break
  \<close>
\<close>

fun scan_old_price :: "(datetime \<times> real) list \<Rightarrow> real \<Rightarrow> real option \<Rightarrow> real option" where
  "scan_old_price [] cutoff old_price = old_price"
| "scan_old_price ((t, p) # rest) cutoff old_price =
     (if timestamp t \<le> cutoff then scan_old_price rest cutoff (Some p) else old_price)"

text \<open>The baseline that \<open>get_change\<close> selects: the scan, then the fallback to the earliest price.\<close>

definition select_old_price :: "(datetime \<times> real) list \<Rightarrow> real \<Rightarrow> real" where
  "select_old_price ps cutoff =
     (case scan_old_price ps cutoff None of
        None \<Rightarrow> snd (hd ps)
      | Some p \<Rightarrow> p)"

definition get_change :: "PriceHistory \<Rightarrow> datetime \<Rightarrow> int \<Rightarrow> py_error + real option" where
  "get_change h now minutes =
     (if length (prices h) < 2 then Inr None
      else
        (let cutoff = timestamp now - real_of_int (minutes * 60);
             current = snd (last (prices h));
             old_price = select_old_price (prices h) cutoff
         in if old_price \<noteq> 0 \<and> old_price > 0
            then (case py_truediv (current - old_price) old_price of
                    Inl e \<Rightarrow> Inl e
                  | Inr q \<Rightarrow> Inr (Some (q * 100)))
            else Inr None))"

text \<open>
  The change as the specification words it: the baseline is the most recent retained price
  whose timestamp is at or before the cutoff, or the earliest retained price when no sample
  is that old; undefined with fewer than two samples.
\<close>

definition baseline_spec :: "(datetime \<times> real) list \<Rightarrow> real \<Rightarrow> real" where
  "baseline_spec ps cutoff =
     (case filter (\<lambda>(t, p). timestamp t \<le> cutoff) ps of
        [] \<Rightarrow> snd (hd ps)
      | x # xs \<Rightarrow> snd (last (x # xs)))"

definition change_spec :: "PriceHistory \<Rightarrow> datetime \<Rightarrow> int \<Rightarrow> real option" where
  "change_spec h now minutes =
     (if length (prices h) < 2 then None
      else
        (let baseline = baseline_spec (prices h) (timestamp now - real_of_int (minutes * 60));
             current = snd (last (prices h))
         in Some (((current - baseline) / baseline) * 100)))"

section \<open>Strings\<close>

text \<open>
  Strings are lists of 8-bit characters; the string methods the source calls are modelled on
  ASCII. \<open>upper\<close> is \<open>str.upper()\<close>, \<open>strip\<close> is \<open>str.strip()\<close>, \<open>endswith\<close> and
  \<open>startswith\<close> are the methods of those names, \<open>str_remove old s\<close> is
  \<open>s.replace(old, '')\<close> and \<open>str_contains s sub\<close> is \<open>sub in s\<close>.
\<close>

definition upper_char :: "char \<Rightarrow> char" where
  "upper_char c =
     (let n = (of_char c :: nat) in if 97 \<le> n \<and> n \<le> 122 then char_of (n - 32) else c)"

definition upper :: "string \<Rightarrow> string" where
  "upper s = map upper_char s"

definition is_space :: "char \<Rightarrow> bool" where
  "is_space c = (let n = (of_char c :: nat) in (9 \<le> n \<and> n \<le> 13) \<or> (28 \<le> n \<and> n \<le> 32))"

definition strip :: "string \<Rightarrow> string" where
  "strip s = rev (dropWhile is_space (rev (dropWhile is_space s)))"

definition startswith :: "string \<Rightarrow> string \<Rightarrow> bool" where
  "startswith s pre = (take (length pre) s = pre)"

definition endswith :: "string \<Rightarrow> string \<Rightarrow> bool" where
  "endswith s suf = (length suf \<le> length s \<and> drop (length s - length suf) s = suf)"

function str_remove :: "string \<Rightarrow> string \<Rightarrow> string" where
  "str_remove old [] = []"
| "str_remove old (c # cs) =
     (if old \<noteq> [] \<and> take (length old) (c # cs) = old
      then str_remove old (drop (length old) (c # cs))
      else c # str_remove old cs)"
  by pat_completeness auto
termination
  by (relation "measure (\<lambda>(old, s). length s)") auto

fun str_contains :: "string \<Rightarrow> string \<Rightarrow> bool" where
  "str_contains [] sub = (sub = [])"
| "str_contains (c # cs) sub = (take (length sub) (c # cs) = sub \<or> str_contains cs sub)"

section \<open>User configuration (config.py)\<close>

datatype AlertMode = SINGLE | REPEAT

text \<open>\<open>NotifyChannel.ALL\<close> is written \<open>ALL_CHANNELS\<close>.\<close>

datatype NotifyChannel = TELEGRAM | EMAIL | ALL_CHANNELS

text \<open>
  The \<open>enabled\<close> fields of \<open>RepeatAlertConfig\<close>, \<open>NightModeConfig\<close> and \<open>EmailConfig\<close>
  are \<open>repeat_enabled\<close>, \<open>night_enabled\<close> and \<open>email_enabled\<close>.
\<close>

record RepeatAlertConfig =
  repeat_enabled :: bool
  interval_seconds :: int
  max_repeats :: int
  require_confirm :: bool

record NightModeConfig =
  night_enabled :: bool
  auto_switch :: bool
  night_start :: string
  night_end :: string
  night_interval_seconds :: int
  night_max_repeats :: int
  night_add_email :: bool

record AlertModeConfig =
  mode :: AlertMode
  repeat :: RepeatAlertConfig
  night :: NightModeConfig

record EmailConfig =
  email_enabled :: bool
  to_addresses :: "string list"

text \<open>
  \<open>UserConfig\<close>, with the fields read by the dispatcher, the mute path and the mode
  selection (thresholds and the per-family enable flags are left out).
\<close>

record UserConfig =
  user_id :: string
  chat_id :: string
  is_active :: bool
  timezone_offset :: int
  alert_mode :: AlertModeConfig
  email :: EmailConfig
  notify_channels :: "NotifyChannel list"
  cooldown_seconds :: int
  watch_mode :: string
  whitelist :: "string list"
  blacklist :: "string list"

definition should_monitor :: "UserConfig \<Rightarrow> string \<Rightarrow> bool" where
  "should_monitor cfg symbol =
     (let symbol = upper symbol in
      if symbol \<in> set (blacklist cfg) then False
      else if list_ex (\<lambda>blocked. str_remove ''USDT'' symbol = str_remove ''USDT'' blocked) (blacklist cfg)
        then False
      else if watch_mode cfg = ''whitelist''
        then (symbol \<in> set (whitelist cfg)
              \<or> list_ex (\<lambda>allowed. str_remove ''USDT'' symbol = str_remove ''USDT'' allowed) (whitelist cfg))
      else True)"

subsection \<open>Local time and the night window\<close>

text \<open>
  A time of day (\<open>datetime.time\<close>) is the number of microseconds since midnight.
  \<open>strptime_HM\<close> models \<open>datetime.strptime(s, "%H:%M").time()\<close> of the standard library:
  the hour is \<open>2[0-3]\<close>, \<open>[0-1]\d\<close> or \<open>\d\<close>, the minute \<open>[0-5]\d\<close> or \<open>\d\<close>, and
  any text that remains is a \<open>ValueError\<close> (here \<open>None\<close>).
\<close>

type_synonym time_of_day = int

definition is_digit :: "char \<Rightarrow> bool" where
  "is_digit c = (let n = (of_char c :: nat) in 48 \<le> n \<and> n \<le> 57)"

definition digit_value :: "char \<Rightarrow> int" where
  "digit_value c = int (of_char c) - 48"

fun parse_hour :: "string \<Rightarrow> (int \<times> string) option" where
  "parse_hour (a # b # rest) =
     (if a = CHR ''2'' \<and> is_digit b \<and> digit_value b \<le> 3 then Some (20 + digit_value b, rest)
      else if is_digit a \<and> digit_value a \<le> 1 \<and> is_digit b
        then Some (10 * digit_value a + digit_value b, rest)
      else if is_digit a then Some (digit_value a, b # rest)
      else None)"
| "parse_hour [a] = (if is_digit a then Some (digit_value a, []) else None)"
| "parse_hour [] = None"

fun parse_minute :: "string \<Rightarrow> (int \<times> string) option" where
  "parse_minute (a # b # rest) =
     (if is_digit a \<and> digit_value a \<le> 5 \<and> is_digit b
        then Some (10 * digit_value a + digit_value b, rest)
      else if is_digit a then Some (digit_value a, b # rest)
      else None)"
| "parse_minute [a] = (if is_digit a then Some (digit_value a, []) else None)"
| "parse_minute [] = None"

definition strptime_HM :: "string \<Rightarrow> time_of_day option" where
  "strptime_HM s =
     (case parse_hour s of
        None \<Rightarrow> None
      | Some (h, r) \<Rightarrow>
          (case r of
             [] \<Rightarrow> None
           | c # r' \<Rightarrow>
               if c \<noteq> CHR '':'' then None
               else (case parse_minute r' of
                       None \<Rightarrow> None
                     | Some (m, rest) \<Rightarrow>
                         if rest = [] then Some (seconds (h * 3600 + m * 60)) else None)))"

text \<open>
  \<open>get_local_time()\<close> without argument: \<open>utc_now\<close> is the clock \<open>datetime.now(timezone.utc)\<close>;
  \<open>timezone(timedelta(hours=offset))\<close> raises \<open>ValueError\<close> unless the offset is strictly
  between -24 and 24 hours. The result is the local wall-clock time.
\<close>

definition get_local_time :: "UserConfig \<Rightarrow> datetime \<Rightarrow> py_error + datetime" where
  "get_local_time cfg utc_now =
     (if -24 < timezone_offset cfg \<and> timezone_offset cfg < 24
      then Inr (utc_now + seconds (timezone_offset cfg * 3600))
      else Inl ValueError)"

definition time_of :: "datetime \<Rightarrow> time_of_day" where
  "time_of t = t mod seconds 86400"

definition is_night_time :: "UserConfig \<Rightarrow> datetime \<Rightarrow> py_error + bool" where
  "is_night_time cfg utc_now =
     (if \<not> night_enabled (night (alert_mode cfg)) then Inr False
      else
        (case get_local_time cfg utc_now of
           Inl e \<Rightarrow> Inl e
         | Inr local_time \<Rightarrow>
             (let now = time_of local_time in
              case strptime_HM (night_start (night (alert_mode cfg))) of
                None \<Rightarrow> Inr False
              | Some start \<Rightarrow>
                  (case strptime_HM (night_end (night (alert_mode cfg))) of
                     None \<Rightarrow> Inr False
                   | Some end \<Rightarrow>
                       if start \<le> end then Inr (start \<le> now \<and> now \<le> end)
                       else Inr (now \<ge> start \<or> now \<le> end)))))"

definition get_effective_mode :: "UserConfig \<Rightarrow> datetime \<Rightarrow> py_error + AlertMode" where
  "get_effective_mode cfg utc_now =
     (let night_config = night (alert_mode cfg) in
      if night_enabled night_config \<and> auto_switch night_config
      then (case is_night_time cfg utc_now of
              Inl e \<Rightarrow> Inl e
            | Inr is_night \<Rightarrow> if is_night then Inr REPEAT else Inr (mode (alert_mode cfg)))
      else Inr (mode (alert_mode cfg)))"

text \<open>The night window as the specification words it.\<close>

definition in_night_window :: "time_of_day \<Rightarrow> time_of_day \<Rightarrow> time_of_day \<Rightarrow> bool" where
  "in_night_window start end now =
     (if start \<le> end then start \<le> now \<and> now \<le> end else now \<ge> start \<or> now \<le> end)"

text \<open>
  The field defaults of the dataclasses: timezone UTC+8, mode \<open>SINGLE\<close>, night mode enabled
  with automatic switching from 23:00 to 07:00.
\<close>

definition default_UserConfig :: UserConfig where
  "default_UserConfig =
     \<lparr>user_id = '''', chat_id = '''', is_active = True, timezone_offset = 8,
      alert_mode =
        \<lparr>mode = SINGLE,
         repeat = \<lparr>repeat_enabled = False, interval_seconds = 10, max_repeats = 30,
                   require_confirm = True\<rparr>,
         night = \<lparr>night_enabled = True, auto_switch = True, night_start = ''23:00'',
                  night_end = ''07:00'', night_interval_seconds = 15, night_max_repeats = 20,
                  night_add_email = True\<rparr>\<rparr>,
      email = \<lparr>email_enabled = False, to_addresses = []\<rparr>,
      notify_channels = [TELEGRAM], cooldown_seconds = 300, watch_mode = ''all'',
      whitelist = [], blacklist = []\<rparr>"

text \<open>The defaults with \<open>auto_switch\<close> turned off, as the configuration file can set it.\<close>

definition no_auto_switch_UserConfig :: UserConfig where
  "no_auto_switch_UserConfig =
     default_UserConfig
       \<lparr>alert_mode :=
          (alert_mode default_UserConfig)
            \<lparr>night := (night (alert_mode default_UserConfig))\<lparr>auto_switch := False\<rparr>\<rparr>\<rparr>"

text \<open>\<open>get_repeat_config\<close> returns a dictionary with four keys, here a record.\<close>

record repeat_config =
  rc_enabled :: bool
  rc_interval_seconds :: int
  rc_max_repeats :: int
  rc_require_confirm :: bool

definition get_repeat_config :: "UserConfig \<Rightarrow> datetime \<Rightarrow> py_error + repeat_config" where
  "get_repeat_config cfg utc_now =
     (case is_night_time cfg utc_now of
        Inl e \<Rightarrow> Inl e
      | Inr is_night \<Rightarrow>
          if is_night \<and> night_enabled (night (alert_mode cfg))
          then Inr \<lparr>rc_enabled = True,
                    rc_interval_seconds = night_interval_seconds (night (alert_mode cfg)),
                    rc_max_repeats = night_max_repeats (night (alert_mode cfg)),
                    rc_require_confirm = True\<rparr>
          else (let r = repeat (alert_mode cfg) in
                Inr \<lparr>rc_enabled = (repeat_enabled r \<or> mode (alert_mode cfg) = REPEAT),
                     rc_interval_seconds = interval_seconds r,
                     rc_max_repeats = max_repeats r,
                     rc_require_confirm = require_confirm r\<rparr>))"

definition get_notify_channels :: "UserConfig \<Rightarrow> datetime \<Rightarrow> py_error + NotifyChannel list" where
  "get_notify_channels cfg utc_now =
     (let channels = notify_channels cfg; night_config = night (alert_mode cfg) in
      if night_enabled night_config \<and> night_add_email night_config
      then (case is_night_time cfg utc_now of
              Inl e \<Rightarrow> Inl e
            | Inr is_night \<Rightarrow>
                if is_night \<and> email_enabled (email cfg) \<and> EMAIL \<notin> set channels
                then Inr (channels @ [EMAIL])
                else Inr channels)
      else Inr channels)"

subsection \<open>The user manager\<close>

text \<open>\<open>user_manager.users\<close>: a dictionary from user id to \<open>UserConfig\<close>.\<close>

type_synonym users = "string \<rightharpoonup> UserConfig"

text \<open>\<open>update_user(user_id, is_active=v)\<close>, the only way the dispatcher calls \<open>update_user\<close>.\<close>

definition update_user_is_active :: "users \<Rightarrow> string \<Rightarrow> bool \<Rightarrow> users" where
  "update_user_is_active us uid v =
     (case us uid of
        None \<Rightarrow> us
      | Some cfg \<Rightarrow> us(uid \<mapsto> cfg\<lparr>is_active := v\<rparr>))"

text \<open>The loop of \<open>add_to_blacklist\<close> over the symbols, on the user's blacklist.\<close>

fun blacklist_append :: "string list \<Rightarrow> string list \<Rightarrow> string list" where
  "blacklist_append bl [] = bl"
| "blacklist_append bl (s # rest) =
     (let s' = strip (upper s) in
      if s' \<noteq> [] \<and> s' \<notin> set bl then blacklist_append (bl @ [s']) rest
      else blacklist_append bl rest)"

definition add_to_blacklist :: "users \<Rightarrow> string \<Rightarrow> string list \<Rightarrow> users" where
  "add_to_blacklist us uid symbols =
     (case us uid of
        None \<Rightarrow> us
      | Some cfg \<Rightarrow> us(uid \<mapsto> cfg\<lparr>blacklist := blacklist_append (blacklist cfg) symbols\<rparr>))"

section \<open>Alerts (models.py)\<close>

text \<open>
  \<open>Alert\<close>, without \<open>message\<close>, \<open>data\<close> and \<open>timestamp\<close>; its field \<open>id\<close> is
  \<open>alert_id\<close>.
\<close>

record Alert =
  alert_id :: string
  alert_type :: AlertType
  level :: AlertLevel
  symbol :: string
  market_type :: MarketType
  target_user_id :: string
  status :: AlertStatus
  sent_count :: int
  last_sent :: "datetime option"
  confirmed_at :: "datetime option"

section \<open>The dispatcher (notifier.py)\<close>

text \<open>
  \<open>pending_alerts\<close> is \<open>{user_id: {alert_id: Alert}}\<close>; the inner dictionary is an
  association list in insertion order, which the fuzzy match of \<open>confirm_alert\<close> follows.
  \<open>confirmed_ids\<close> is \<open>{user_id: set(alert_ids)}\<close>.
\<close>

record MultiUserNotifier =
  pending_alerts :: "string \<rightharpoonup> (string \<times> Alert) list"
  confirmed_ids :: "string \<rightharpoonup> string set"

text \<open>
  What \<open>self._bot.send_message\<close> does is outside the program: its outcome is an input. The
  constructors are success and the exception classes that \<open>_send_telegram\<close> tells apart.
\<close>

datatype telegram_outcome =
    Delivered | Forbidden | TimedOut | NetworkError | BadRequest | TelegramError | OtherException

text \<open>
  \<open>_send_telegram\<close>: returns whether the send counts as a success. With the confirm button
  it first calls \<open>is_night_time\<close> and \<open>get_repeat_config\<close> inside the \<open>try\<close>, so an
  exception of theirs ends in the last handler. \<open>Forbidden\<close> marks the user inactive.
\<close>

definition send_telegram ::
  "users \<Rightarrow> UserConfig \<Rightarrow> datetime \<Rightarrow> bool \<Rightarrow> telegram_outcome \<Rightarrow> bool \<times> users" where
  "send_telegram us cfg utc_now show_confirm_button outcome =
     (if show_confirm_button \<and> (case is_night_time cfg utc_now of Inl e \<Rightarrow> True | Inr b \<Rightarrow> False)
      then (False, us)
      else (case outcome of
              Delivered \<Rightarrow> (True, us)
            | Forbidden \<Rightarrow> (False, update_user_is_active us (user_id cfg) False)
            | TimedOut \<Rightarrow> (True, us)
            | NetworkError \<Rightarrow> (False, us)
            | BadRequest \<Rightarrow> (False, us)
            | TelegramError \<Rightarrow> (False, us)
            | OtherException \<Rightarrow> (False, us)))"

text \<open>
  \<open>_send_once\<close>: counts the attempt on the alert, then sends on the user's channels.
  \<open>now\<close> is \<open>datetime.now()\<close>, \<open>utc_now\<close> the clock of \<open>get_local_time\<close>. The e-mail
  send changes no state and returns nothing. The result is the success flag, the alert as
  mutated and the user manager.
\<close>

definition send_once ::
  "users \<Rightarrow> Alert \<Rightarrow> UserConfig \<Rightarrow> datetime \<Rightarrow> datetime \<Rightarrow> bool \<Rightarrow> telegram_outcome
     \<Rightarrow> py_error + (bool \<times> Alert \<times> users)" where
  "send_once us alert cfg now utc_now show_confirm_button outcome =
     (let alert1 = alert\<lparr>sent_count := sent_count alert + 1, last_sent := Some now, status := SENT\<rparr> in
      case get_notify_channels cfg utc_now of
        Inl e \<Rightarrow> Inl e
      | Inr channels \<Rightarrow>
          if TELEGRAM \<in> set channels \<or> ALL_CHANNELS \<in> set channels
          then (case send_telegram us cfg utc_now show_confirm_button outcome of
                  (tg_success, us1) \<Rightarrow> Inr (tg_success, alert1, us1))
          else Inr (True, alert1, us))"

text \<open>
  \<open>send_alert_to_user\<close>: the result is the user manager, the dispatcher and the alert as
  mutated.
\<close>

definition send_alert_to_user ::
  "users \<Rightarrow> MultiUserNotifier \<Rightarrow> Alert \<Rightarrow> UserConfig \<Rightarrow> datetime \<Rightarrow> datetime \<Rightarrow> telegram_outcome
     \<Rightarrow> py_error + (users \<times> MultiUserNotifier \<times> Alert)" where
  "send_alert_to_user us nt alert cfg now utc_now outcome =
     (let uid = user_id cfg;
          alert0 = alert\<lparr>target_user_id := uid\<rparr>
      in case get_effective_mode cfg utc_now of
           Inl e \<Rightarrow> Inl e
         | Inr effective_mode \<Rightarrow>
             (case is_night_time cfg utc_now of
                Inl e \<Rightarrow> Inl e
              | Inr is_night \<Rightarrow>
                  (let need_confirm = (effective_mode = REPEAT) in
                   if need_confirm
                   then (case send_once us alert0 cfg now utc_now True outcome of
                           Inl e \<Rightarrow> Inl e
                         | Inr (success, alert1, us1) \<Rightarrow>
                             if success
                             then (let alerts = (case pending_alerts nt uid of None \<Rightarrow> [] | Some al \<Rightarrow> al)
                                   in Inr (us1,
                                           nt\<lparr>pending_alerts :=
                                                (pending_alerts nt)
                                                  (uid \<mapsto> AList.update (alert_id alert1) alert1 alerts)\<rparr>,
                                           alert1))
                             else Inr (us1, nt, alert1))
                   else (case send_once us alert0 cfg now utc_now False outcome of
                           Inl e \<Rightarrow> Inl e
                         | Inr (success, alert1, us1) \<Rightarrow> Inr (us1, nt, alert1)))))"

definition is_confirmed :: "MultiUserNotifier \<Rightarrow> string \<Rightarrow> string \<Rightarrow> bool" where
  "is_confirmed nt uid aid =
     (case confirmed_ids nt uid of None \<Rightarrow> False | Some ids \<Rightarrow> aid \<in> ids)"

text \<open>
  The two statements of \<open>remove_alerts_for_symbol\<close> that record an id as confirmed:
  \<^verbatim>\<open>
  if user_id not in self.confirmed_ids: self.confirmed_ids[user_id] = set()
  self.confirmed_ids[user_id].add(alert_id)
  \<close>
\<close>

definition add_confirmed :: "MultiUserNotifier \<Rightarrow> string \<Rightarrow> string \<Rightarrow> MultiUserNotifier" where
  "add_confirmed nt uid aid =
     nt\<lparr>confirmed_ids :=
          (confirmed_ids nt)
            (uid \<mapsto> insert aid (case confirmed_ids nt uid of None \<Rightarrow> {} | Some ids \<Rightarrow> ids))\<rparr>"

text \<open>\<open>self.pending_alerts[user_id].pop(alert_id, None)\<close>.\<close>

definition pop_pending :: "MultiUserNotifier \<Rightarrow> string \<Rightarrow> string \<Rightarrow> MultiUserNotifier" where
  "pop_pending nt uid aid =
     (case pending_alerts nt uid of
        None \<Rightarrow> nt
      | Some alerts \<Rightarrow> nt\<lparr>pending_alerts := (pending_alerts nt)(uid \<mapsto> AList.delete aid alerts)\<rparr>)"

text \<open>\<open>if user_id not in self.confirmed_ids: self.confirmed_ids[user_id] = set()\<close>.\<close>

definition ensure_confirmed_set :: "MultiUserNotifier \<Rightarrow> string \<Rightarrow> MultiUserNotifier" where
  "ensure_confirmed_set nt uid =
     (case confirmed_ids nt uid of
        None \<Rightarrow> nt\<lparr>confirmed_ids := (confirmed_ids nt)(uid \<mapsto> {})\<rparr>
      | Some ids \<Rightarrow> nt)"

text \<open>
  \<open>self.confirmed_ids[user_id].add(alert_id)\<close> on its own: subscripting the dictionary
  raises \<open>KeyError\<close> when the user has no set.
\<close>

definition confirmed_add :: "MultiUserNotifier \<Rightarrow> string \<Rightarrow> string \<Rightarrow> py_error + MultiUserNotifier" where
  "confirmed_add nt uid aid =
     (case confirmed_ids nt uid of
        None \<Rightarrow> Inl KeyError
      | Some ids \<Rightarrow> Inr (nt\<lparr>confirmed_ids := (confirmed_ids nt)(uid \<mapsto> insert aid ids)\<rparr>))"

text \<open>
  \<open>self.pending_alerts[user_id].pop(alert_id)\<close>, without a default: \<open>KeyError\<close> when the
  user has no dictionary or the dictionary has no such key; otherwise the alert removed and
  the dispatcher.
\<close>

definition pending_pop ::
  "MultiUserNotifier \<Rightarrow> string \<Rightarrow> string \<Rightarrow> py_error + (Alert \<times> MultiUserNotifier)" where
  "pending_pop nt uid aid =
     (case pending_alerts nt uid of
        None \<Rightarrow> Inl KeyError
      | Some alerts \<Rightarrow>
          (case map_of alerts aid of
             None \<Rightarrow> Inl KeyError
           | Some alert \<Rightarrow>
               Inr (alert,
                    nt\<lparr>pending_alerts := (pending_alerts nt)(uid \<mapsto> AList.delete aid alerts)\<rparr>)))"

text \<open>
  The three statements that confirm the pending alert with key \<open>k\<close> (in both the exact
  and the fuzzy branch of \<open>confirm_alert\<close>):
  \<^verbatim>\<open>
  self.confirmed_ids[user_id].add(k)
  alert = self.pending_alerts[user_id].pop(k)
  alert.status = AlertStatus.CONFIRMED; alert.confirmed_at = datetime.now()
  \<close>
  The result is the dispatcher and the alert object as mutated.
\<close>

definition confirm_pending ::
  "MultiUserNotifier \<Rightarrow> datetime \<Rightarrow> string \<Rightarrow> string \<Rightarrow> py_error + (MultiUserNotifier \<times> Alert)" where
  "confirm_pending nt now uid k =
     (case confirmed_add nt uid k of
        Inl e \<Rightarrow> Inl e
      | Inr nt1 \<Rightarrow>
          (case pending_pop nt1 uid k of
             Inl e \<Rightarrow> Inl e
           | Inr (alert, nt2) \<Rightarrow>
               Inr (nt2, alert\<lparr>status := CONFIRMED, confirmed_at := Some now\<rparr>)))"

text \<open>
  \<open>confirm_alert\<close>: raises, or returns the boolean, the dispatcher and, when a pending
  alert was confirmed, its key and the alert object as mutated. The fuzzy branch walks
  \<open>list(self.pending_alerts[user_id].keys())\<close> and stops at the first key that starts with
  or contains the id.
\<close>

definition confirm_alert ::
  "MultiUserNotifier \<Rightarrow> datetime \<Rightarrow> string \<Rightarrow> string
     \<Rightarrow> py_error + (bool \<times> MultiUserNotifier \<times> (string \<times> Alert) option)" where
  "confirm_alert nt now uid aid =
     (let nt1 = ensure_confirmed_set nt uid;
          no_match = (case confirmed_add nt1 uid aid of
                        Inl e \<Rightarrow> Inl e
                      | Inr nt2 \<Rightarrow> Inr (True, nt2, None))
      in case pending_alerts nt1 uid of
           None \<Rightarrow> no_match
         | Some alerts \<Rightarrow>
             if aid \<in> set (map fst alerts)
             then (case confirm_pending nt1 now uid aid of
                     Inl e \<Rightarrow> Inl e
                   | Inr (nt2, alert) \<Rightarrow> Inr (True, nt2, Some (aid, alert)))
             else (case find (\<lambda>k. startswith k aid \<or> str_contains k aid) (map fst alerts) of
                     Some k \<Rightarrow>
                       (case confirm_pending nt1 now uid k of
                          Inl e \<Rightarrow> Inl e
                        | Inr (nt2, alert) \<Rightarrow> Inr (True, nt2, Some (k, alert)))
                   | None \<Rightarrow> no_match))"

text \<open>The test of \<open>remove_alerts_for_symbol\<close> on one pending alert (\<open>symb\<close> is upper-cased).\<close>

definition symbol_matches :: "Alert \<Rightarrow> string \<Rightarrow> bool" where
  "symbol_matches alert symb =
     (let alert_symbol = upper (symbol alert) in
      alert_symbol = symb
      \<or> alert_symbol = symb @ ''USDT''
      \<or> str_remove ''USDT'' alert_symbol = str_remove ''USDT'' symb)"

text \<open>The second loop of \<open>remove_alerts_for_symbol\<close>, over \<open>to_remove\<close>.\<close>

fun remove_loop :: "string \<Rightarrow> string list \<Rightarrow> nat \<times> MultiUserNotifier \<Rightarrow> nat \<times> MultiUserNotifier" where
  "remove_loop uid [] (count, nt) = (count, nt)"
| "remove_loop uid (aid # rest) (count, nt) =
     remove_loop uid rest (count + 1, add_confirmed (pop_pending nt uid aid) uid aid)"

definition remove_alerts_for_symbol ::
  "MultiUserNotifier \<Rightarrow> string \<Rightarrow> string \<Rightarrow> nat \<times> MultiUserNotifier" where
  "remove_alerts_for_symbol nt uid symb =
     (let symb = upper symb in
      case pending_alerts nt uid of
        None \<Rightarrow> (0, nt)
      | Some alerts \<Rightarrow>
          (let to_remove = map fst (filter (\<lambda>(aid, alert). symbol_matches alert symb) alerts)
           in remove_loop uid to_remove (0, nt)))"

text \<open>
  Example data: two alerts of user \<open>u2\<close> in a pending registry, in insertion order.
\<close>

definition example_alert :: "string \<Rightarrow> string \<Rightarrow> int \<Rightarrow> Alert" where
  "example_alert aid symb n =
     \<lparr>alert_id = aid, alert_type = PRICE_PUMP, level = WARNING, symbol = symb,
      market_type = SPOT, target_user_id = ''u2'', status = SENT, sent_count = n,
      last_sent = Some 0, confirmed_at = None\<rparr>"

definition example_notifier :: MultiUserNotifier where
  "example_notifier =
     \<lparr>pending_alerts =
        [''u2'' \<mapsto> [(''abc12345'', example_alert ''abc12345'' ''YUSDT'' 1),
                     (''def67890'', example_alert ''def67890'' ''ZUSDT'' 1)]],
      confirmed_ids = Map.empty\<rparr>"

text \<open>
  A user \<open>u2\<close> in \<open>REPEAT\<close> mode with night mode disabled and the default repeat settings
  (every 10 s, at most 30 times), and the same user with \<open>max_repeats\<close> set to 0.
\<close>

definition repeat_UserConfig :: UserConfig where
  "repeat_UserConfig =
     default_UserConfig
       \<lparr>user_id := ''u2'', chat_id := ''u2'',
        alert_mode :=
          \<lparr>mode = REPEAT,
           repeat = \<lparr>repeat_enabled = True, interval_seconds = 10, max_repeats = 30,
                     require_confirm = True\<rparr>,
           night = (night (alert_mode default_UserConfig))\<lparr>night_enabled := False\<rparr>\<rparr>\<rparr>"

definition no_repeats_UserConfig :: UserConfig where
  "no_repeats_UserConfig =
     repeat_UserConfig
       \<lparr>alert_mode :=
          (alert_mode repeat_UserConfig)
            \<lparr>repeat := (repeat (alert_mode repeat_UserConfig))\<lparr>max_repeats := 0\<rparr>\<rparr>\<rparr>"

definition empty_notifier :: MultiUserNotifier where
  "empty_notifier = \<lparr>pending_alerts = Map.empty, confirmed_ids = Map.empty\<rparr>"

text \<open>
  Whether \<open>_send_once\<close> reports success for a user and an outcome of the Telegram call: it
  does unless Telegram is among the user's channels and the call fails (a timeout counts as
  success).
\<close>

definition delivered :: "UserConfig \<Rightarrow> telegram_outcome \<Rightarrow> bool" where
  "delivered cfg outcome =
     ((TELEGRAM \<notin> set (notify_channels cfg) \<and> ALL_CHANNELS \<notin> set (notify_channels cfg))
      \<or> outcome = Delivered \<or> outcome = TimedOut)"

section \<open>Clearing cooldowns (alert\_engine.py)\<close>

text \<open>
  \<open>clear_cooldowns(user_id=None, symbol=None)\<close>: the two arguments are optional strings,
  tested for truth (\<open>None\<close> and the empty string are false).
\<close>

definition truthy :: "string option \<Rightarrow> bool" where
  "truthy s = (case s of None \<Rightarrow> False | Some v \<Rightarrow> v \<noteq> [])"

definition clear_cooldowns :: "AlertEngine \<Rightarrow> string option \<Rightarrow> string option \<Rightarrow> AlertEngine" where
  "clear_cooldowns eng uid_arg symbol_arg =
     (if truthy uid_arg \<and> truthy symbol_arg
      then (case (uid_arg, symbol_arg) of
              (Some uid, Some symb) \<Rightarrow>
                (case cooldowns eng uid of
                   None \<Rightarrow> eng
                 | Some by_symbol \<Rightarrow>
                     (case by_symbol symb of
                        None \<Rightarrow> eng
                      | Some by_type \<Rightarrow>
                          eng\<lparr>cooldowns := (cooldowns eng)(uid \<mapsto> by_symbol(symb := None))\<rparr>))
            | _ \<Rightarrow> eng)
      else if truthy uid_arg
      then (case uid_arg of
              Some uid \<Rightarrow>
                (case cooldowns eng uid of
                   None \<Rightarrow> eng
                 | Some by_symbol \<Rightarrow> eng\<lparr>cooldowns := (cooldowns eng)(uid \<mapsto> Map.empty)\<rparr>)
            | None \<Rightarrow> eng)
      else if truthy symbol_arg
      then (case symbol_arg of
              Some symb \<Rightarrow>
                eng\<lparr>cooldowns :=
                      (\<lambda>u. map_option (\<lambda>by_symbol. by_symbol(symb := None)) (cooldowns eng u))\<rparr>
            | None \<Rightarrow> eng)
      else eng\<lparr>cooldowns := Map.empty\<rparr>)"

section \<open>Mute (telegram\_bot.py)\<close>

text \<open>
  The bot holds the dispatcher, the system it is attached to (\<open>None\<close> until \<open>set_system\<close>;
  of the system only its alert engine is kept) and the mute entries
  \<open>{user_id: {symbol: unmute_time}}\<close>.
\<close>

record TelegramBot =
  notifier :: MultiUserNotifier
  system :: "AlertEngine option"
  muted_symbols :: "string \<rightharpoonup> (string \<rightharpoonup> datetime)"

text \<open>The first lines of \<open>_mute_symbol_for_user\<close>: upper case, with the suffix \<open>USDT\<close>.\<close>

definition mute_symbol_name :: "string \<Rightarrow> string" where
  "mute_symbol_name symb =
     (let s = upper symb in if \<not> endswith s ''USDT'' then s @ ''USDT'' else s)"

text \<open>
  \<open>_mute_symbol_for_user\<close>: returns the number of pending alerts removed, the user manager
  and the bot. \<open>now\<close> is the clock read for the expiry.
\<close>

definition mute_symbol_for_user ::
  "users \<Rightarrow> TelegramBot \<Rightarrow> datetime \<Rightarrow> string \<Rightarrow> string \<Rightarrow> int \<Rightarrow> nat \<times> users \<times> TelegramBot" where
  "mute_symbol_for_user us tbot now uid symb minutes =
     (let s = mute_symbol_name symb;
          us1 = add_to_blacklist us uid [s]
      in case remove_alerts_for_symbol (notifier tbot) uid s of
           (removed_count, nt1) \<Rightarrow>
             (let system1 = (case system tbot of
                               None \<Rightarrow> None
                             | Some eng \<Rightarrow> Some (clear_cooldowns eng (Some uid) (Some s)));
                  muted = (case muted_symbols tbot uid of None \<Rightarrow> Map.empty | Some m \<Rightarrow> m);
                  unmute_time = now + seconds (minutes * 60)
              in (removed_count, us1,
                  tbot\<lparr>notifier := nt1, system := system1,
                      muted_symbols := (muted_symbols tbot)(uid \<mapsto> muted(s \<mapsto> unmute_time))\<rparr>)))"


section \<open>The repeat loop (notifier.py)\<close>

text \<open>
  One pass of \<open>_repeat_loop\<close> (the body of its \<open>while\<close>, after the sleep) handles each
  user of the pending registry in turn; \<open>repeat_loop_user\<close> below is the body of that
  \<open>for\<close> for one user. The state of the loop over the user's alerts:
  the user manager, the user's live dictionary of pending alerts, the list \<open>to_remove\<close>,
  and the ids handed to \<open>_send_once\<close> so far, in order (a record of the sends, not a
  variable of the source).
\<close>

record repeat_state =
  rs_users :: users
  rs_alerts :: "(string \<times> Alert) list"
  rs_to_remove :: "string list"
  rs_sent :: "string list"

text \<open>
  The loop \<open>for alert_id, alert in list(alerts.items())\<close>. \<open>nt\<close> is the dispatcher (for
  \<open>_is_confirmed\<close>), \<open>cfg\<close> the \<open>user_config\<close> fetched before the loop, \<open>rc\<close> the
  repeat configuration, \<open>now\<close> the clock read before the loop (also used for the
  \<open>last_sent\<close> that \<open>_send_once\<close> sets) and \<open>env\<close> the outcome of the Telegram call
  for each alert id.
\<close>

fun repeat_alerts ::
  "MultiUserNotifier \<Rightarrow> string \<Rightarrow> UserConfig \<Rightarrow> repeat_config \<Rightarrow> datetime \<Rightarrow> datetime
     \<Rightarrow> (string \<Rightarrow> telegram_outcome) \<Rightarrow> (string \<times> Alert) list \<Rightarrow> repeat_state
     \<Rightarrow> py_error + repeat_state" where
  "repeat_alerts nt uid cfg rc now utc_now env [] st = Inr st"
| "repeat_alerts nt uid cfg rc now utc_now env ((aid, alert) # rest) st =
     (if is_confirmed nt uid aid
      then repeat_alerts nt uid cfg rc now utc_now env rest
             (st\<lparr>rs_to_remove := rs_to_remove st @ [aid]\<rparr>)
      else if \<not> should_monitor cfg (symbol alert)
      then repeat_alerts nt uid cfg rc now utc_now env rest
             (st\<lparr>rs_to_remove := rs_to_remove st @ [aid]\<rparr>)
      else if sent_count alert \<ge> rc_max_repeats rc
      then repeat_alerts nt uid cfg rc now utc_now env rest
             (st\<lparr>rs_to_remove := rs_to_remove st @ [aid]\<rparr>)
      else (case last_sent alert of
              None \<Rightarrow> repeat_alerts nt uid cfg rc now utc_now env rest st
            | Some sent_at \<Rightarrow>
                if now - sent_at \<ge> seconds (rc_interval_seconds rc)
                then (case send_once (rs_users st) alert cfg now utc_now True (env aid) of
                        Inl e \<Rightarrow> Inl e
                      | Inr (success, alert1, us1) \<Rightarrow>
                          repeat_alerts nt uid cfg rc now utc_now env rest
                            (st\<lparr>rs_users := us1,
                                rs_alerts := AList.update aid alert1 (rs_alerts st),
                                rs_to_remove :=
                                  (if success then rs_to_remove st else rs_to_remove st @ [aid]),
                                rs_sent := rs_sent st @ [aid]\<rparr>))
                else repeat_alerts nt uid cfg rc now utc_now env rest st))"

text \<open>The loop \<open>for aid in to_remove: alerts.pop(aid, None)\<close>.\<close>

fun pop_all :: "string list \<Rightarrow> (string \<times> Alert) list \<Rightarrow> (string \<times> Alert) list" where
  "pop_all [] alerts = alerts"
| "pop_all (aid # rest) alerts = pop_all rest (AList.delete aid alerts)"

text \<open>
  The body of the loop over users, for the user \<open>uid\<close>: the result is the user manager, the
  dispatcher and the ids sent in this pass. A user with no entry in the pending registry is
  not visited.
\<close>

definition repeat_loop_user ::
  "users \<Rightarrow> MultiUserNotifier \<Rightarrow> string \<Rightarrow> datetime \<Rightarrow> datetime \<Rightarrow> (string \<Rightarrow> telegram_outcome)
     \<Rightarrow> py_error + (users \<times> MultiUserNotifier \<times> string list)" where
  "repeat_loop_user us nt uid now utc_now env =
     (case pending_alerts nt uid of
        None \<Rightarrow> Inr (us, nt, [])
      | Some alerts \<Rightarrow>
          (case us uid of
             None \<Rightarrow> Inr (us, nt\<lparr>pending_alerts := (pending_alerts nt)(uid := None)\<rparr>, [])
           | Some cfg \<Rightarrow>
               if \<not> is_active cfg
               then Inr (us, nt\<lparr>pending_alerts := (pending_alerts nt)(uid := None)\<rparr>, [])
               else
                 (case get_repeat_config cfg utc_now of
                    Inl e \<Rightarrow> Inl e
                  | Inr rc \<Rightarrow>
                      (case (if rc_enabled rc then Inr False
                             else (case get_effective_mode cfg utc_now of
                                     Inl e \<Rightarrow> Inl e
                                   | Inr m \<Rightarrow> Inr (m \<noteq> REPEAT))) of
                         Inl e \<Rightarrow> Inl e
                       | Inr skip \<Rightarrow>
                           if skip then Inr (us, nt, [])
                           else
                             (case is_night_time cfg utc_now of
                                Inl e \<Rightarrow> Inl e
                              | Inr is_night \<Rightarrow>
                                  (case repeat_alerts nt uid cfg rc now utc_now env alerts
                                          \<lparr>rs_users = us, rs_alerts = alerts,
                                           rs_to_remove = [], rs_sent = []\<rparr> of
                                     Inl e \<Rightarrow> Inl e
                                   | Inr st \<Rightarrow>
                                       Inr (rs_users st,
                                            nt\<lparr>pending_alerts :=
                                                 (pending_alerts nt)
                                                   (uid \<mapsto> pop_all (rs_to_remove st) (rs_alerts st))\<rparr>,
                                            rs_sent st)))))))"

text \<open>
  Two outcomes of the Telegram calls of a pass: every call is delivered; or the call for the
  alert \<open>abc12345\<close> is refused because the user has blocked the bot, and the others are
  delivered.
\<close>

definition all_delivered :: "string \<Rightarrow> telegram_outcome" where
  "all_delivered aid = Delivered"

definition forbidden_first :: "string \<Rightarrow> telegram_outcome" where
  "forbidden_first aid = (if aid = ''abc12345'' then Forbidden else Delivered)"


section \<open>Cooldown and escalation: properties\<close>

lemma cell_set_cooldown:
  "cell (set_cooldown eng now uid smb atype lvl) uid smb atype = Some (now, lvl)"
  by (simp add: cell_def set_cooldown_def Let_def)

lemma cell_escalation_count:
  "cell (eng\<lparr>escalation_count := n\<rparr>) uid smb atype = cell eng uid smb atype"
  by (simp add: cell_def)

lemma candidate_no_cell:
  assumes "cell eng uid smb atype = None"
  shows "candidate eng now_check now_set uid smb atype lvl c =
           (Some False, set_cooldown eng now_set uid smb atype lvl)"
  using assms
  by (auto simp: candidate_def check_cooldown_and_escalation_def cell_def split: option.splits)

lemma candidate_cell:
  assumes "cell eng uid smb atype = Some (last_time, last_level)"
  shows "candidate eng now_check now_set uid smb atype lvl c =
           (if \<not> now_check - last_time < seconds c
            then (Some False, set_cooldown eng now_set uid smb atype lvl)
            else if priority lvl > priority last_level
            then (Some True,
                  set_cooldown (eng\<lparr>escalation_count := escalation_count eng + 1\<rparr>)
                    now_set uid smb atype lvl)
            else (None, eng))"
  using assms
  by (auto simp: candidate_def check_cooldown_and_escalation_def cell_def Let_def
           split: option.splits)

text \<open>
  C1. A candidate fires when no cell exists or when the time since the last fire is at least
  the cooldown; inside the cooldown it fires, tagged as an escalation, exactly when its level
  has a strictly greater priority than the stored one, and is suppressed otherwise. Every fire
  overwrites the cell with the time of the assignment and the level that fired; a suppressed
  candidate leaves the whole engine unchanged.
\<close>

theorem cooldown_and_escalation_decision:
  fixes eng :: AlertEngine and uid smb :: string and atype :: AlertType
    and lvl :: AlertLevel and now now' :: datetime and c :: int
  defines "old \<equiv> cell eng uid smb atype"
  defines "res \<equiv> candidate eng now now' uid smb atype lvl c"
  shows "(fst res \<noteq> None \<longleftrightarrow>
            old = None
            \<or> (\<exists>last_time last_level. old = Some (last_time, last_level)
                  \<and> (now - last_time \<ge> seconds c \<or> priority lvl > priority last_level)))
       \<and> (fst res = Some True \<longleftrightarrow>
            (\<exists>last_time last_level. old = Some (last_time, last_level)
                  \<and> now - last_time < seconds c \<and> priority lvl > priority last_level))
       \<and> (fst res \<noteq> None \<longrightarrow> cell (snd res) uid smb atype = Some (now', lvl))
       \<and> (fst res = None \<longrightarrow> snd res = eng)"
proof (cases old)
  case None
  then have "res = (Some False, set_cooldown eng now' uid smb atype lvl)"
    unfolding res_def old_def by (rule candidate_no_cell)
  with None show ?thesis by (simp add: cell_set_cooldown)
next
  case (Some cl)
  obtain last_time last_level where cl: "cl = (last_time, last_level)" by (cases cl)
  from Some cl have "cell eng uid smb atype = Some (last_time, last_level)"
    by (simp add: old_def)
  from candidate_cell [OF this] have
    "res = (if \<not> now - last_time < seconds c
            then (Some False, set_cooldown eng now' uid smb atype lvl)
            else if priority lvl > priority last_level
            then (Some True,
                  set_cooldown (eng\<lparr>escalation_count := escalation_count eng + 1\<rparr>)
                    now' uid smb atype lvl)
            else (None, eng))"
    by (simp add: res_def)
  with Some cl show ?thesis by (auto simp: cell_set_cooldown)
qed

text \<open>
  The first two steps of scenario S1: a first fire at \<open>WARNING\<close>, then one minute later,
  inside the 300 s cooldown, a candidate at \<open>CRITICAL\<close> fires as an escalation and
  overwrites the cell.
\<close>

theorem cooldown_and_escalation_decision_witness:
  "(let eng1 = snd (candidate fresh_engine 0 0 ''u1'' ''XUSDT'' PRICE_PUMP WARNING 300);
        r = candidate eng1 (seconds 60) (seconds 60) ''u1'' ''XUSDT'' PRICE_PUMP CRITICAL 300
    in cell eng1 ''u1'' ''XUSDT'' PRICE_PUMP = Some (0, WARNING)
       \<and> fst r = Some True
       \<and> cell (snd r) ''u1'' ''XUSDT'' PRICE_PUMP = Some (seconds 60, CRITICAL))"
  using cooldown_and_escalation_decision
     [of "snd (candidate fresh_engine 0 0 ''u1'' ''XUSDT'' PRICE_PUMP WARNING 300)"
         "seconds 60" "seconds 60" "''u1''" "''XUSDT''" PRICE_PUMP CRITICAL 300]
  by (simp add: fresh_engine_def candidate_def check_cooldown_and_escalation_def
        set_cooldown_def cell_def seconds_def Let_def)

lemma candidate_inside_cooldown:
  assumes "cell eng uid smb atype = Some (last_time, last_level)"
    and "now - last_time < seconds c"
  shows "(let r = candidate eng now now' uid smb atype lvl c in
           (fst r = None \<and> snd r = eng)
           \<or> (fst r = Some True \<and> priority last_level < priority lvl
               \<and> cell (snd r) uid smb atype = Some (now', lvl)))"
  using assms by (simp add: candidate_cell cell_set_cooldown Let_def)

lemma candidates_inside_cooldown:
  "cell eng uid smb atype = Some (last_time, last_level) \<Longrightarrow>
   inside_cooldown eng uid smb atype fs \<Longrightarrow>
     \<exists>t1 l1. cell (candidates eng uid smb atype fs) uid smb atype = Some (t1, l1)
       \<and> priority last_level \<le> priority l1"
proof (induction fs arbitrary: eng last_time last_level)
  case Nil
  then show ?case by simp
next
  case (Cons f fs)
  let ?r = "candidate eng (at_check f) (at_set f) uid smb atype (fired_level f) (cooldown f)"
  from Cons.prems have ins: "at_check f - last_time < seconds (cooldown f)"
    and rest: "inside_cooldown (snd ?r) uid smb atype fs"
    by simp_all
  from candidate_inside_cooldown [OF Cons.prems(1) ins, of "at_set f" "fired_level f"]
  consider (suppressed) "snd ?r = eng"
    | (escalated) "priority last_level < priority (fired_level f)"
        "cell (snd ?r) uid smb atype = Some (at_set f, fired_level f)"
    by (auto simp: Let_def)
  then show ?case
  proof cases
    case suppressed
    with Cons.IH [of eng last_time last_level] Cons.prems(1) rest show ?thesis by simp
  next
    case escalated
    from Cons.IH [OF escalated(2) rest] obtain t1 l1 where
      "cell (candidates (snd ?r) uid smb atype fs) uid smb atype = Some (t1, l1)"
      "priority (fired_level f) \<le> priority l1"
      by blast
    with escalated(1) show ?thesis by auto
  qed
qed

text \<open>
  C8. While the cooldown of a cell has not expired, a candidate either is suppressed and
  leaves the engine as it was, or fires as an escalation and overwrites the cell with a level
  of strictly greater priority. Hence along any sequence of candidates that all arrive inside
  the cooldown of the cell they find, the stored level never decreases.
\<close>

theorem stored_level_never_decreases:
  fixes eng :: AlertEngine and uid smb :: string and atype :: AlertType
  assumes "cell eng uid smb atype = Some (last_time, last_level)"
  shows "(now - last_time < seconds c \<longrightarrow>
           (let r = candidate eng now now' uid smb atype lvl c in
              (fst r = None \<and> snd r = eng)
              \<or> (fst r = Some True \<and> priority last_level < priority lvl
                  \<and> cell (snd r) uid smb atype = Some (now', lvl))))
       \<and> (inside_cooldown eng uid smb atype fs \<longrightarrow>
           (\<exists>t1 l1. cell (candidates eng uid smb atype fs) uid smb atype
                       = Some (t1, l1)
                    \<and> priority last_level \<le> priority l1))"
  using candidate_inside_cooldown [OF assms] candidates_inside_cooldown [OF assms]
  by blast

text \<open>
  Scenario S1: after a first fire at \<open>WARNING\<close>, a candidate at \<open>CRITICAL\<close> one minute
  later escalates and a candidate at \<open>WARNING\<close> two minutes later is suppressed; the cell
  ends at \<open>CRITICAL\<close>.
\<close>

theorem stored_level_never_decreases_witness:
  "(let eng1 = snd (candidate fresh_engine 0 0 ''u1'' ''XUSDT'' PRICE_PUMP WARNING 300);
        fs = [\<lparr>at_check = seconds 60, at_set = seconds 60, fired_level = CRITICAL, cooldown = 300\<rparr>,
              \<lparr>at_check = seconds 120, at_set = seconds 120, fired_level = WARNING, cooldown = 300\<rparr>]
    in cell eng1 ''u1'' ''XUSDT'' PRICE_PUMP = Some (0, WARNING)
       \<and> inside_cooldown eng1 ''u1'' ''XUSDT'' PRICE_PUMP fs
       \<and> cell (candidates eng1 ''u1'' ''XUSDT'' PRICE_PUMP fs) ''u1'' ''XUSDT'' PRICE_PUMP
            = Some (seconds 60, CRITICAL)
       \<and> priority WARNING \<le> priority CRITICAL)"
  using stored_level_never_decreases
     [of "snd (candidate fresh_engine 0 0 ''u1'' ''XUSDT'' PRICE_PUMP WARNING 300)"
         "''u1''" "''XUSDT''" PRICE_PUMP 0 WARNING "seconds 60" 300 "seconds 60" CRITICAL
         "[\<lparr>at_check = seconds 60, at_set = seconds 60, fired_level = CRITICAL, cooldown = 300\<rparr>,
           \<lparr>at_check = seconds 120, at_set = seconds 120, fired_level = WARNING, cooldown = 300\<rparr>]"]
  by (simp add: fresh_engine_def candidate_def check_cooldown_and_escalation_def
        set_cooldown_def cell_def seconds_def Let_def)

section \<open>Big-order thresholds: properties\<close>

lemma get_threshold_default:
  "get_threshold default_BigOrderThreshold V = (tier_abs V, tier_ratio V)"
  by (simp add: get_threshold_def default_BigOrderThreshold_def tier_abs_def tier_ratio_def)

text \<open>
  C2 as stated fails for users on another profile, whose absolute floors differ from the
  table. With the CONSERVATIVE thresholds an order of 600000 with no turnover is not big
  (the floor is 1000000), though it reaches the stated threshold of 500000. With the
  AGGRESSIVE thresholds an order of 400000 on a turnover of 1000000 is big (floor 300000,
  share 200000), though it is below the stated threshold of 500000.
\<close>

theorem is_big_order_counterexample:
  "\<not> is_big_order conservative_BigOrderThreshold 600000 0
   \<and> (600000 :: real) \<ge> max (tier_abs 0) (0 * tier_ratio 0 / 100)
   \<and> is_big_order aggressive_BigOrderThreshold 400000 1000000
   \<and> \<not> (400000 :: real) \<ge> max (tier_abs 1000000) (1000000 * tier_ratio 1000000 / 100)"
  by (simp add: is_big_order_def get_threshold_def conservative_BigOrderThreshold_def
        aggressive_BigOrderThreshold_def tier_abs_def tier_ratio_def)

text \<open>
  C2, amended. With the default thresholds (those of the dataclass, equal to the MODERATE
  preset), an order of notional \<open>N\<close> on a symbol of 24h turnover \<open>V\<close> is big exactly when
  \<open>N\<close> reaches the larger of the tier's absolute floor and the tier's share of \<open>V\<close>, with
  the tiers of the table; for \<open>V \<le> 0\<close> that is the small-cap floor of 500000 alone.
\<close>

theorem is_big_order_threshold:
  "(is_big_order default_BigOrderThreshold N V \<longleftrightarrow> N \<ge> max (tier_abs V) (V * tier_ratio V / 100))
   \<and> (V \<le> 0 \<longrightarrow> (is_big_order default_BigOrderThreshold N V \<longleftrightarrow> N \<ge> 500000))"
proof (cases "V \<le> 0")
  case True
  then have "V * 20 / 100 \<le> 500000" by simp
  with True show ?thesis
    by (simp add: is_big_order_def default_BigOrderThreshold_def tier_abs_def tier_ratio_def max_def)
next
  case False
  then show ?thesis
    by (simp add: is_big_order_def get_threshold_default Let_def)
qed

text \<open>
  Scenario S4 (turnover 50M, mid tier, threshold 5M): 3M is not big, 6M is; and with no
  turnover the floor of 500000 decides.
\<close>

theorem is_big_order_threshold_witness:
  "\<not> is_big_order default_BigOrderThreshold 3000000 50000000
   \<and> is_big_order default_BigOrderThreshold 6000000 50000000
   \<and> (0::real) \<le> 0 \<and> is_big_order default_BigOrderThreshold 500000 0
   \<and> \<not> is_big_order default_BigOrderThreshold 499999 0"
  using is_big_order_threshold [of 3000000 50000000] is_big_order_threshold [of 6000000 50000000]
    is_big_order_threshold [of 500000 0] is_big_order_threshold [of 499999 0]
  by (simp add: tier_abs_def tier_ratio_def)

section \<open>Price history: properties\<close>

lemma scan_old_price_sorted:
  "sorted (map fst ps) \<Longrightarrow>
     scan_old_price ps cutoff acc =
       (case filter (\<lambda>(t, p). timestamp t \<le> cutoff) ps of
          [] \<Rightarrow> acc
        | x # xs \<Rightarrow> Some (snd (last (x # xs))))"
proof (induction ps arbitrary: acc)
  case Nil
  then show ?case by simp
next
  case (Cons a ps)
  obtain t p where a: "a = (t, p)" by (cases a)
  from Cons.prems a have sorted_rest: "sorted (map fst ps)" and le: "\<forall>x \<in> set ps. t \<le> fst x"
    by auto
  show ?case
  proof (cases "timestamp t \<le> cutoff")
    case True
    with a Cons.IH [OF sorted_rest, of "Some p"] show ?thesis
      by (simp split: list.splits)
  next
    case False
    have "\<forall>x \<in> set ps. \<not> timestamp (fst x) \<le> cutoff"
    proof
      fix x assume "x \<in> set ps"
      with le have "t \<le> fst x" by simp
      then have "timestamp t \<le> timestamp (fst x)"
        by (simp add: timestamp_def divide_right_mono)
      with False show "\<not> timestamp (fst x) \<le> cutoff" by simp
    qed
    then have "filter (\<lambda>(t, p). timestamp t \<le> cutoff) ps = []"
      by (auto simp: filter_empty_conv)
    with False a show ?thesis by simp
  qed
qed

lemma select_old_price_sorted:
  "sorted (map fst ps) \<Longrightarrow> select_old_price ps cutoff = baseline_spec ps cutoff"
  by (simp add: select_old_price_def baseline_spec_def scan_old_price_sorted split: list.splits)

lemma get_change_by_baseline:
  "get_change h now minutes =
     (if length (prices h) < 2 then Inr None
      else if select_old_price (prices h) (timestamp now - real_of_int (minutes * 60)) \<le> 0
      then Inr None
      else Inr (Some (((snd (last (prices h))
                         - select_old_price (prices h) (timestamp now - real_of_int (minutes * 60)))
                        / select_old_price (prices h) (timestamp now - real_of_int (minutes * 60)))
                      * 100)))"
  by (auto simp: get_change_def Let_def py_truediv_def)

text \<open>
  C7 as stated fails on two histories. With a negative baseline the code returns \<open>None\<close>
  where the stated formula gives \<open>-300\<close>. With timestamps out of order the scan stops at
  the first sample after the cutoff, so the code falls back to the earliest price \<open>1\<close>
  (change \<open>300\<close>) where the most recent price at or before the cutoff is \<open>2\<close>
  (change \<open>100\<close>).
\<close>

theorem get_change_counterexample:
  "get_change \<lparr>history_symbol = ''XUSDT'', history_market_type = SPOT,
               prices = [(0, -1), (seconds 100, 2)], volumes = []\<rparr> (seconds 100) 1 = Inr None
   \<and> change_spec \<lparr>history_symbol = ''XUSDT'', history_market_type = SPOT,
               prices = [(0, -1), (seconds 100, 2)], volumes = []\<rparr> (seconds 100) 1 = Some (-300)
   \<and> get_change \<lparr>history_symbol = ''XUSDT'', history_market_type = SPOT,
               prices = [(seconds 50, 1), (0, 2), (seconds 100, 4)], volumes = []\<rparr> (seconds 100) 1
        = Inr (Some 300)
   \<and> change_spec \<lparr>history_symbol = ''XUSDT'', history_market_type = SPOT,
               prices = [(seconds 50, 1), (0, 2), (seconds 100, 4)], volumes = []\<rparr> (seconds 100) 1
        = Some 100"
  by (simp add: get_change_def change_spec_def select_old_price_def baseline_spec_def
        py_truediv_def timestamp_def seconds_def)

text \<open>
  C7, amended. For a history whose timestamps are in non-decreasing order, \<open>get_change\<close>
  never raises and returns \<open>None\<close> when fewer than two samples are retained or when the
  baseline is zero or negative, and otherwise \<open>((current - baseline) / baseline) * 100\<close>,
  with the baseline of the specification.
\<close>

theorem get_change_sorted:
  assumes "sorted (map fst (prices h))"
  shows "get_change h now minutes =
           Inr (if length (prices h) < 2
                   \<or> baseline_spec (prices h) (timestamp now - real_of_int (minutes * 60)) \<le> 0
                then None
                else change_spec h now minutes)"
  using select_old_price_sorted [OF assms]
  by (simp add: get_change_by_baseline change_spec_def Let_def)

theorem get_change_sorted_witness:
  "sorted (map fst [(0, 100), (seconds 30 :: datetime, 101), (seconds 90, 110 :: real)])
   \<and> get_change \<lparr>history_symbol = ''XUSDT'', history_market_type = SPOT,
                 prices = [(0, 100), (seconds 30, 101), (seconds 90, 110)], volumes = []\<rparr>
        (seconds 100) 1 = Inr (Some (900 / 101))"
  using get_change_sorted
    [of "\<lparr>history_symbol = ''XUSDT'', history_market_type = SPOT,
          prices = [(0, 100), (seconds 30, 101), (seconds 90, 110)], volumes = []\<rparr>"
        "seconds 100" 1]
  by (simp add: change_spec_def baseline_spec_def timestamp_def seconds_def)

text \<open>
  C9. \<open>get_change\<close> never raises \<open>ZeroDivisionError\<close> (nor any other error): with two or
  more samples it returns \<open>None\<close> whenever the baseline it selected is zero or negative, and
  every value it returns was computed from a positive baseline.
\<close>

theorem get_change_guarded:
  "(\<forall>e. get_change h now minutes \<noteq> Inl e)
   \<and> (select_old_price (prices h) (timestamp now - real_of_int (minutes * 60)) \<le> 0
        \<longrightarrow> get_change h now minutes = Inr None)
   \<and> (\<forall>v. get_change h now minutes = Inr (Some v)
        \<longrightarrow> 2 \<le> length (prices h)
            \<and> 0 < select_old_price (prices h) (timestamp now - real_of_int (minutes * 60)))"
  by (simp add: get_change_by_baseline)

theorem get_change_guarded_witness:
  "select_old_price [(0, 0), (seconds 100, 2)] (timestamp (seconds 100) - real_of_int (1 * 60)) \<le> 0
   \<and> get_change \<lparr>history_symbol = ''XUSDT'', history_market_type = SPOT,
                 prices = [(0, 0), (seconds 100, 2)], volumes = []\<rparr> (seconds 100) 1 = Inr None
   \<and> get_change \<lparr>history_symbol = ''XUSDT'', history_market_type = SPOT,
                 prices = [(0, 1), (seconds 100, 2)], volumes = []\<rparr> (seconds 100) 1 = Inr (Some 100)
   \<and> 0 < select_old_price [(0, 1), (seconds 100, 2)] (timestamp (seconds 100) - real_of_int (1 * 60))"
  using get_change_guarded
    [of "\<lparr>history_symbol = ''XUSDT'', history_market_type = SPOT,
          prices = [(0, 0), (seconds 100, 2)], volumes = []\<rparr>" "seconds 100" 1]
    get_change_guarded
    [of "\<lparr>history_symbol = ''XUSDT'', history_market_type = SPOT,
          prices = [(0, 1), (seconds 100, 2)], volumes = []\<rparr>" "seconds 100" 1]
  by (simp add: select_old_price_def timestamp_def seconds_def get_change_by_baseline)

section \<open>Effective mode: properties\<close>

text \<open>
  C4 as stated fails: with the default night window 23:00 to 07:00, night mode enabled but
  \<open>auto_switch\<close> off, a user at UTC+8 whose local time is 23:30 is inside the window, and
  the effective mode is still the configured \<open>SINGLE\<close>.
\<close>

theorem effective_mode_counterexample:
  "night_enabled (night (alert_mode no_auto_switch_UserConfig))
   \<and> strptime_HM (night_start (night (alert_mode no_auto_switch_UserConfig))) = Some (seconds 82800)
   \<and> strptime_HM (night_end (night (alert_mode no_auto_switch_UserConfig))) = Some (seconds 25200)
   \<and> get_local_time no_auto_switch_UserConfig (seconds 55800) = Inr (seconds 84600)
   \<and> in_night_window (seconds 82800) (seconds 25200) (time_of (seconds 84600))
   \<and> is_night_time no_auto_switch_UserConfig (seconds 55800) = Inr True
   \<and> get_effective_mode no_auto_switch_UserConfig (seconds 55800) = Inr SINGLE"
  by (simp add: no_auto_switch_UserConfig_def default_UserConfig_def strptime_HM_def is_digit_def
        digit_value_def get_local_time_def in_night_window_def time_of_def is_night_time_def
        get_effective_mode_def seconds_def)

text \<open>
  C4, amended. For a user whose timezone offset is a valid one (strictly between -24 and 24
  hours), the effective mode is \<open>REPEAT\<close> whenever night mode is enabled, \<open>auto_switch\<close>
  is on and the local time lies in the configured night window (both bounds parse as
  \<open>%H:%M\<close>), regardless of the base mode; otherwise it is the configured mode.
\<close>

theorem effective_mode_night:
  assumes "-24 < timezone_offset cfg" and "timezone_offset cfg < 24"
  shows "get_effective_mode cfg utc_now =
           Inr (if night_enabled (night (alert_mode cfg)) \<and> auto_switch (night (alert_mode cfg))
                   \<and> (\<exists>start end.
                         strptime_HM (night_start (night (alert_mode cfg))) = Some start
                         \<and> strptime_HM (night_end (night (alert_mode cfg))) = Some end
                         \<and> in_night_window start end
                             (time_of (utc_now + seconds (timezone_offset cfg * 3600))))
                then REPEAT else mode (alert_mode cfg))"
  using assms
  by (auto simp: get_effective_mode_def is_night_time_def get_local_time_def in_night_window_def
        Let_def split: option.splits)

text \<open>
  Scenario S5: base mode \<open>SINGLE\<close>, night 23:00 to 07:00, UTC+8. At 15:30 UTC (23:30
  local) the effective mode is \<open>REPEAT\<close>; at 04:00 UTC (noon local) it is \<open>SINGLE\<close>.
\<close>

theorem effective_mode_night_witness:
  "-24 < timezone_offset default_UserConfig \<and> timezone_offset default_UserConfig < 24
   \<and> mode (alert_mode default_UserConfig) = SINGLE
   \<and> get_effective_mode default_UserConfig (seconds 55800) = Inr REPEAT
   \<and> get_effective_mode default_UserConfig (seconds 14400) = Inr SINGLE"
  using effective_mode_night [of default_UserConfig "seconds 55800"]
    effective_mode_night [of default_UserConfig "seconds 14400"]
  by (simp add: default_UserConfig_def strptime_HM_def is_digit_def
        digit_value_def in_night_window_def time_of_def seconds_def)

section \<open>The dispatcher: properties\<close>

lemma pending_pop_pending:
  "pending_alerts (pop_pending nt uid k) uid' =
     (if uid' = uid then map_option (AList.delete k) (pending_alerts nt uid) else pending_alerts nt uid')"
  by (simp add: pop_pending_def split: option.splits)

lemma confirmed_pop_pending: "confirmed_ids (pop_pending nt uid k) = confirmed_ids nt"
  by (simp add: pop_pending_def split: option.splits)

lemma pending_add_confirmed: "pending_alerts (add_confirmed nt uid k) = pending_alerts nt"
  by (simp add: add_confirmed_def)

lemma is_confirmed_add_confirmed:
  "is_confirmed (add_confirmed nt uid k) uid' k' \<longleftrightarrow> is_confirmed nt uid' k' \<or> (uid' = uid \<and> k' = k)"
  by (auto simp: is_confirmed_def add_confirmed_def split: option.splits)

lemma is_confirmed_pop_pending: "is_confirmed (pop_pending nt uid k) uid' k' = is_confirmed nt uid' k'"
  by (simp add: is_confirmed_def confirmed_pop_pending)

lemma ensure_simps: "pending_alerts (ensure_confirmed_set nt uid) = pending_alerts nt"
  "is_confirmed (ensure_confirmed_set nt uid) uid' k = is_confirmed nt uid' k"
  by (auto simp: ensure_confirmed_set_def is_confirmed_def split: option.splits)

lemma confirmed_add_ensured:
  "confirmed_add (ensure_confirmed_set nt uid) uid k = Inr (add_confirmed nt uid k)"
  by (simp add: confirmed_add_def ensure_confirmed_set_def add_confirmed_def split: option.splits)

lemma pending_pop_present:
  assumes "pending_alerts nt uid = Some alerts" and "map_of alerts k = Some alert"
  shows "pending_pop nt uid k = Inr (alert, pop_pending nt uid k)"
  using assms by (simp add: pending_pop_def pop_pending_def)

lemma confirm_pending_present:
  assumes "pending_alerts nt uid = Some alerts" and "map_of alerts k = Some alert"
  shows "confirm_pending (ensure_confirmed_set nt uid) now uid k =
           Inr (pop_pending (add_confirmed nt uid k) uid k,
                alert\<lparr>status := CONFIRMED, confirmed_at := Some now\<rparr>)"
proof -
  from assms(1) have "pending_alerts (add_confirmed nt uid k) uid = Some alerts"
    by (simp add: pending_add_confirmed)
  from pending_pop_present [OF this assms(2)] show ?thesis
    by (simp add: confirm_pending_def confirmed_add_ensured)
qed

lemma confirm_pending_effect:
  assumes "pending_alerts nt uid = Some alerts" and "map_of alerts k = Some alert"
  shows "(\<exists>alerts'. pending_alerts (pop_pending (add_confirmed nt uid k) uid k) uid = Some alerts'
             \<and> map_of alerts' k = None)
         \<and> is_confirmed (pop_pending (add_confirmed nt uid k) uid k) uid k"
  using assms
  by (simp add: pending_pop_pending pending_add_confirmed is_confirmed_pop_pending
        is_confirmed_add_confirmed AList.delete_conv')

lemma confirm_alert_exact:
  assumes "pending_alerts nt uid = Some alerts" and "map_of alerts aid = Some alert"
  shows "\<exists>nt'. confirm_alert nt now uid aid
            = Inr (True, nt', Some (aid, alert\<lparr>status := CONFIRMED, confirmed_at := Some now\<rparr>))
          \<and> (\<exists>alerts'. pending_alerts nt' uid = Some alerts' \<and> map_of alerts' aid = None)
          \<and> is_confirmed nt' uid aid"
proof -
  from assms(2) have "aid \<in> fst ` set alerts"
    by (metis domI dom_map_of_conv_image_fst)
  with assms(1) confirm_pending_present [OF assms, of now]
  have "confirm_alert nt now uid aid
          = Inr (True, pop_pending (add_confirmed nt uid aid) uid aid,
                 Some (aid, alert\<lparr>status := CONFIRMED, confirmed_at := Some now\<rparr>))"
    by (simp add: confirm_alert_def ensure_simps Let_def)
  with confirm_pending_effect [OF assms] show ?thesis by simp
qed

lemma confirm_alert_fuzzy:
  assumes "pending_alerts nt uid = Some alerts" and "map_of alerts aid = None"
    and "(k0, a0) \<in> set alerts" and "startswith k0 aid \<or> str_contains k0 aid"
  shows "\<exists>nt' k alert. confirm_alert nt now uid aid
            = Inr (True, nt', Some (k, alert\<lparr>status := CONFIRMED, confirmed_at := Some now\<rparr>))
          \<and> (k, alert) \<in> set alerts \<and> (startswith k aid \<or> str_contains k aid)
          \<and> (\<exists>alerts'. pending_alerts nt' uid = Some alerts' \<and> map_of alerts' k = None)
          \<and> is_confirmed nt' uid k"
proof -
  let ?P = "\<lambda>k. startswith k aid \<or> str_contains k aid"
  from assms(2) have notin: "aid \<notin> fst ` set alerts"
    by (simp add: map_of_eq_None_iff)
  from assms(3) have "k0 \<in> set (map fst alerts)" by force
  with assms(4) have "find ?P (map fst alerts) \<noteq> None"
    unfolding find_None_iff by blast
  then obtain k where f: "find ?P (map fst alerts) = Some k" by auto
  then have k: "k \<in> fst ` set alerts" "?P k"
    by (auto simp: find_Some_iff dest: nth_mem)
  then obtain alert where a: "map_of alerts k = Some alert"
    by (metis map_of_eq_None_iff not_Some_eq)
  then have mem: "(k, alert) \<in> set alerts" by (rule map_of_SomeD)
  from assms(1) notin f confirm_pending_present [OF assms(1) a, of now]
  have "confirm_alert nt now uid aid
          = Inr (True, pop_pending (add_confirmed nt uid k) uid k,
                 Some (k, alert\<lparr>status := CONFIRMED, confirmed_at := Some now\<rparr>))"
    by (simp add: confirm_alert_def ensure_simps Let_def)
  with confirm_pending_effect [OF assms(1) a] mem k(2) show ?thesis by blast
qed

lemma confirm_alert_no_match:
  assumes "pending_alerts nt uid = None
           \<or> (\<exists>alerts. pending_alerts nt uid = Some alerts
                \<and> (\<forall>(k, a) \<in> set alerts. k \<noteq> aid \<and> \<not> startswith k aid \<and> \<not> str_contains k aid))"
  shows "\<exists>nt'. confirm_alert nt now uid aid = Inr (True, nt', None)
          \<and> pending_alerts nt' = pending_alerts nt \<and> is_confirmed nt' uid aid"
  using assms
proof (elim disjE exE conjE)
  assume "pending_alerts nt uid = None"
  then show ?thesis
    by (simp add: confirm_alert_def Let_def confirmed_add_ensured pending_add_confirmed ensure_simps
          is_confirmed_add_confirmed)
next
  fix alerts
  assume a: "pending_alerts nt uid = Some alerts"
    and b: "\<forall>(k, a) \<in> set alerts. k \<noteq> aid \<and> \<not> startswith k aid \<and> \<not> str_contains k aid"
  from b have "aid \<notin> fst ` set alerts" by force
  moreover from b have "find (\<lambda>k. startswith k aid \<or> str_contains k aid) (map fst alerts) = None"
    unfolding find_None_iff by force
  ultimately show ?thesis using a
    by (simp add: confirm_alert_def Let_def confirmed_add_ensured pending_add_confirmed ensure_simps
          is_confirmed_add_confirmed)
qed

lemma confirm_alert_returns_True:
  "\<exists>nt' res. confirm_alert nt now uid aid = Inr (True, nt', res)"
proof (cases "pending_alerts nt uid")
  case None
  with confirm_alert_no_match [of nt uid aid now] show ?thesis by blast
next
  case (Some alerts)
  show ?thesis
  proof (cases "map_of alerts aid")
    case (Some alert)
    with \<open>pending_alerts nt uid = Some alerts\<close> confirm_alert_exact [of nt uid alerts aid alert now]
    show ?thesis by blast
  next
    case None
    show ?thesis
    proof (cases "\<exists>k0 a0. (k0, a0) \<in> set alerts \<and> (startswith k0 aid \<or> str_contains k0 aid)")
      case True
      then obtain k0 a0 where "(k0, a0) \<in> set alerts" "startswith k0 aid \<or> str_contains k0 aid"
        by blast
      from confirm_alert_fuzzy [OF \<open>pending_alerts nt uid = Some alerts\<close> None this, of now]
      show ?thesis by blast
    next
      case False
      moreover from None have "\<forall>(k, a) \<in> set alerts. k \<noteq> aid"
        unfolding map_of_eq_None_iff by force
      ultimately
      have "\<forall>(k, a) \<in> set alerts. k \<noteq> aid \<and> \<not> startswith k aid \<and> \<not> str_contains k aid"
        by blast
      with \<open>pending_alerts nt uid = Some alerts\<close> confirm_alert_no_match [of nt uid aid now]
      show ?thesis by blast
    qed
  qed
qed


text \<open>
  C10. \<open>confirm_alert\<close> raises no exception and returns \<open>True\<close> for every user id and
  alert id: no subscript or \<open>pop\<close> of it meets a missing key. If the id is the key of a
  pending alert, that alert leaves the pending registry, its id joins the user's confirmed
  set, and the alert gets status \<open>CONFIRMED\<close> and \<open>confirmed_at\<close>. If it is not but some
  pending key starts with or contains the id, the same happens to one such alert. If nothing
  matches, the pending registry is unchanged and the given id joins the confirmed set.
\<close>

theorem confirm_alert_always_true:
  "(\<exists>nt' res. confirm_alert nt now uid aid = Inr (True, nt', res))
   \<and> (\<forall>alerts alert.
         pending_alerts nt uid = Some alerts \<and> map_of alerts aid = Some alert \<longrightarrow>
           (\<exists>nt'. confirm_alert nt now uid aid
                    = Inr (True, nt', Some (aid, alert\<lparr>status := CONFIRMED, confirmed_at := Some now\<rparr>))
                  \<and> (\<exists>alerts'. pending_alerts nt' uid = Some alerts' \<and> map_of alerts' aid = None)
                  \<and> is_confirmed nt' uid aid))
   \<and> (\<forall>alerts k0 a0.
         pending_alerts nt uid = Some alerts \<and> map_of alerts aid = None
         \<and> (k0, a0) \<in> set alerts \<and> (startswith k0 aid \<or> str_contains k0 aid) \<longrightarrow>
           (\<exists>nt' k alert.
              confirm_alert nt now uid aid
                = Inr (True, nt', Some (k, alert\<lparr>status := CONFIRMED, confirmed_at := Some now\<rparr>))
              \<and> (k, alert) \<in> set alerts \<and> (startswith k aid \<or> str_contains k aid)
              \<and> (\<exists>alerts'. pending_alerts nt' uid = Some alerts' \<and> map_of alerts' k = None)
              \<and> is_confirmed nt' uid k))
   \<and> (pending_alerts nt uid = None
        \<or> (\<exists>alerts. pending_alerts nt uid = Some alerts
              \<and> (\<forall>(k, a) \<in> set alerts. k \<noteq> aid \<and> \<not> startswith k aid \<and> \<not> str_contains k aid))
        \<longrightarrow> (\<exists>nt'. confirm_alert nt now uid aid = Inr (True, nt', None)
                   \<and> pending_alerts nt' = pending_alerts nt \<and> is_confirmed nt' uid aid))"
proof (intro conjI allI impI)
  show "\<exists>nt' res. confirm_alert nt now uid aid = Inr (True, nt', res)"
    by (rule confirm_alert_returns_True)
next
  fix alerts alert
  assume "pending_alerts nt uid = Some alerts \<and> map_of alerts aid = Some alert"
  then show "\<exists>nt'. confirm_alert nt now uid aid
                    = Inr (True, nt', Some (aid, alert\<lparr>status := CONFIRMED, confirmed_at := Some now\<rparr>))
                  \<and> (\<exists>alerts'. pending_alerts nt' uid = Some alerts' \<and> map_of alerts' aid = None)
                  \<and> is_confirmed nt' uid aid"
    using confirm_alert_exact by blast
next
  fix alerts k0 a0
  assume "pending_alerts nt uid = Some alerts \<and> map_of alerts aid = None
         \<and> (k0, a0) \<in> set alerts \<and> (startswith k0 aid \<or> str_contains k0 aid)"
  then show "\<exists>nt' k alert.
              confirm_alert nt now uid aid
                = Inr (True, nt', Some (k, alert\<lparr>status := CONFIRMED, confirmed_at := Some now\<rparr>))
              \<and> (k, alert) \<in> set alerts \<and> (startswith k aid \<or> str_contains k aid)
              \<and> (\<exists>alerts'. pending_alerts nt' uid = Some alerts' \<and> map_of alerts' k = None)
              \<and> is_confirmed nt' uid k"
    using confirm_alert_fuzzy [of nt uid alerts aid k0 a0 now] by blast
next
  assume "pending_alerts nt uid = None
        \<or> (\<exists>alerts. pending_alerts nt uid = Some alerts
              \<and> (\<forall>(k, a) \<in> set alerts. k \<noteq> aid \<and> \<not> startswith k aid \<and> \<not> str_contains k aid))"
  then show "\<exists>nt'. confirm_alert nt now uid aid = Inr (True, nt', None)
                   \<and> pending_alerts nt' = pending_alerts nt \<and> is_confirmed nt' uid aid"
    by (rule confirm_alert_no_match)
qed

text \<open>
  On the example registry, whose user has no confirmed set yet (so that adding to it
  directly would raise): an exact id, a fragment \<open>ef6\<close> of the key \<open>def67890\<close>, and an
  id that matches nothing.
\<close>

theorem confirm_alert_always_true_witness:
  "confirmed_ids example_notifier ''u2'' = None
   \<and> confirmed_add example_notifier ''u2'' ''zzz'' = Inl KeyError
   \<and> confirm_alert example_notifier 5 ''u2'' ''abc12345''
       = Inr (True,
              \<lparr>pending_alerts = [''u2'' \<mapsto> [(''def67890'', example_alert ''def67890'' ''ZUSDT'' 1)]],
               confirmed_ids = [''u2'' \<mapsto> {''abc12345''}]\<rparr>,
              Some (''abc12345'',
                    (example_alert ''abc12345'' ''YUSDT'' 1)
                      \<lparr>status := CONFIRMED, confirmed_at := Some 5\<rparr>))
   \<and> confirm_alert example_notifier 5 ''u2'' ''ef6''
       = Inr (True,
              \<lparr>pending_alerts = [''u2'' \<mapsto> [(''abc12345'', example_alert ''abc12345'' ''YUSDT'' 1)]],
               confirmed_ids = [''u2'' \<mapsto> {''def67890''}]\<rparr>,
              Some (''def67890'',
                    (example_alert ''def67890'' ''ZUSDT'' 1)
                      \<lparr>status := CONFIRMED, confirmed_at := Some 5\<rparr>))
   \<and> confirm_alert example_notifier 5 ''u2'' ''zzz''
       = Inr (True,
              \<lparr>pending_alerts =
                 [''u2'' \<mapsto> [(''abc12345'', example_alert ''abc12345'' ''YUSDT'' 1),
                              (''def67890'', example_alert ''def67890'' ''ZUSDT'' 1)]],
               confirmed_ids = [''u2'' \<mapsto> {''zzz''}]\<rparr>,
              None)"
  using confirm_alert_always_true [of example_notifier 5 "''u2''" "''abc12345''"]
    confirm_alert_always_true [of example_notifier 5 "''u2''" "''ef6''"]
    confirm_alert_always_true [of example_notifier 5 "''u2''" "''zzz''"]
  by (simp add: confirm_alert_def confirm_pending_def confirmed_add_def pending_pop_def
        example_notifier_def example_alert_def ensure_confirmed_set_def startswith_def)

lemma is_night_time_valid:
  assumes "-24 < timezone_offset cfg" "timezone_offset cfg < 24"
  shows "\<exists>b. is_night_time cfg utc_now = Inr b"
  using assms by (auto simp: is_night_time_def get_local_time_def Let_def split: option.splits)

lemma get_effective_mode_valid:
  assumes "-24 < timezone_offset cfg" "timezone_offset cfg < 24"
  shows "\<exists>m. get_effective_mode cfg utc_now = Inr m"
  using is_night_time_valid [OF assms, of utc_now]
  by (auto simp: get_effective_mode_def Let_def)

lemma get_notify_channels_valid:
  assumes "-24 < timezone_offset cfg" "timezone_offset cfg < 24"
  shows "\<exists>chs. get_notify_channels cfg utc_now = Inr chs
           \<and> (TELEGRAM \<in> set chs \<longleftrightarrow> TELEGRAM \<in> set (notify_channels cfg))
           \<and> (ALL_CHANNELS \<in> set chs \<longleftrightarrow> ALL_CHANNELS \<in> set (notify_channels cfg))"
  using is_night_time_valid [OF assms, of utc_now]
  by (auto simp: get_notify_channels_def Let_def)

lemma send_once_valid:
  assumes "-24 < timezone_offset cfg" "timezone_offset cfg < 24"
  shows "\<exists>us'. send_once us alert cfg now utc_now show_confirm outcome =
           Inr (delivered cfg outcome,
                alert\<lparr>sent_count := sent_count alert + 1, last_sent := Some now, status := SENT\<rparr>,
                us')"
proof -
  from get_notify_channels_valid [OF assms, of utc_now] obtain chs where
    chs: "get_notify_channels cfg utc_now = Inr chs"
      "TELEGRAM \<in> set chs \<longleftrightarrow> TELEGRAM \<in> set (notify_channels cfg)"
      "ALL_CHANNELS \<in> set chs \<longleftrightarrow> ALL_CHANNELS \<in> set (notify_channels cfg)"
    by blast
  from is_night_time_valid [OF assms, of utc_now] obtain b where b: "is_night_time cfg utc_now = Inr b"
    by blast
  show ?thesis
    using chs b
    by (cases outcome) (auto simp: send_once_def send_telegram_def delivered_def Let_def)
qed


text \<open>
  C5 as stated fails: a user in \<open>REPEAT\<close> mode whose first Telegram send ends in a
  network error gets the attempt counted on the alert, and the alert does not enter the
  pending registry.
\<close>

theorem pending_counterexample:
  "get_effective_mode repeat_UserConfig 0 = Inr REPEAT
   \<and> send_alert_to_user [''u2'' \<mapsto> repeat_UserConfig] empty_notifier
         (example_alert ''aaa11111'' ''YUSDT'' 0) repeat_UserConfig 0 0 NetworkError
       = Inr ([''u2'' \<mapsto> repeat_UserConfig], empty_notifier,
              (example_alert ''aaa11111'' ''YUSDT'' 0)
                \<lparr>sent_count := 1, last_sent := Some 0, status := SENT\<rparr>)
   \<and> pending_alerts empty_notifier ''u2'' = None"
  by (simp add: get_effective_mode_def is_night_time_def repeat_UserConfig_def default_UserConfig_def
        send_alert_to_user_def send_once_def send_telegram_def get_notify_channels_def
        example_alert_def empty_notifier_def Let_def)

text \<open>
  C5, amended. For a user with a valid timezone offset and an alert whose id is not pending
  for that user yet, \<open>send_alert_to_user\<close> returns, and the alert (as mutated by the send)
  is in the user's pending registry afterwards if and only if the effective mode is
  \<open>REPEAT\<close> and the first send succeeded.
\<close>

theorem pending_iff_repeat_and_success:
  assumes "-24 < timezone_offset cfg" and "timezone_offset cfg < 24"
    and "\<forall>alerts. pending_alerts nt (user_id cfg) = Some alerts \<longrightarrow> map_of alerts (alert_id alert) = None"
  shows "\<exists>us' nt' alert'.
           send_alert_to_user us nt alert cfg now utc_now outcome = Inr (us', nt', alert')
           \<and> ((\<exists>alerts'. pending_alerts nt' (user_id cfg) = Some alerts'
                            \<and> map_of alerts' (alert_id alert) = Some alert')
                \<longleftrightarrow> get_effective_mode cfg utc_now = Inr REPEAT \<and> delivered cfg outcome)"
proof -
  from get_effective_mode_valid [OF assms(1,2), of utc_now] obtain m where
    m: "get_effective_mode cfg utc_now = Inr m" by blast
  from is_night_time_valid [OF assms(1,2), of utc_now] obtain b where
    b: "is_night_time cfg utc_now = Inr b" by blast
  let ?alert0 = "alert\<lparr>target_user_id := user_id cfg\<rparr>"
  let ?alert1 = "?alert0\<lparr>sent_count := sent_count ?alert0 + 1, last_sent := Some now, status := SENT\<rparr>"
  show ?thesis
  proof (cases "m = REPEAT")
    case True
    from send_once_valid [OF assms(1,2), of us ?alert0 now utc_now True outcome] obtain us' where
      s: "send_once us ?alert0 cfg now utc_now True outcome = Inr (delivered cfg outcome, ?alert1, us')"
      by blast
    show ?thesis
    proof (cases "delivered cfg outcome")
      case True
      with \<open>m = REPEAT\<close> m b s show ?thesis
        by (simp add: send_alert_to_user_def Let_def update_conv')
    next
      case False
      with \<open>m = REPEAT\<close> m b s assms(3) show ?thesis
        by (auto simp: send_alert_to_user_def Let_def)
    qed
  next
    case False
    from send_once_valid [OF assms(1,2), of us ?alert0 now utc_now False outcome] obtain us' where
      s: "send_once us ?alert0 cfg now utc_now False outcome = Inr (delivered cfg outcome, ?alert1, us')"
      by blast
    with False m b assms(3) show ?thesis
      by (auto simp: send_alert_to_user_def Let_def)
  qed
qed

text \<open>
  A user in \<open>REPEAT\<close> mode whose send is delivered: the alert enters the registry. The
  default user at noon local time (mode \<open>SINGLE\<close>): the registry stays empty.
\<close>

theorem pending_iff_repeat_and_success_witness:
  "-24 < timezone_offset repeat_UserConfig \<and> timezone_offset repeat_UserConfig < 24
   \<and> pending_alerts empty_notifier (user_id repeat_UserConfig) = None
   \<and> get_effective_mode repeat_UserConfig 0 = Inr REPEAT
   \<and> delivered repeat_UserConfig Delivered
   \<and> send_alert_to_user [''u2'' \<mapsto> repeat_UserConfig] empty_notifier
         (example_alert ''aaa11111'' ''YUSDT'' 0) repeat_UserConfig 0 0 Delivered
       = Inr ([''u2'' \<mapsto> repeat_UserConfig],
              \<lparr>pending_alerts =
                 [''u2'' \<mapsto> [(''aaa11111'',
                     (example_alert ''aaa11111'' ''YUSDT'' 0)
                       \<lparr>sent_count := 1, last_sent := Some 0, status := SENT\<rparr>)]],
               confirmed_ids = Map.empty\<rparr>,
              (example_alert ''aaa11111'' ''YUSDT'' 0)
                \<lparr>sent_count := 1, last_sent := Some 0, status := SENT\<rparr>)
   \<and> get_effective_mode default_UserConfig (seconds 14400) = Inr SINGLE
   \<and> (\<exists>us' alert'. send_alert_to_user [''u2'' \<mapsto> repeat_UserConfig] empty_notifier
         (example_alert ''aaa11111'' ''YUSDT'' 0) default_UserConfig 0 (seconds 14400) Delivered
       = Inr (us', empty_notifier, alert'))"
  using pending_iff_repeat_and_success
     [of repeat_UserConfig empty_notifier "example_alert ''aaa11111'' ''YUSDT'' 0"
         "[''u2'' \<mapsto> repeat_UserConfig]" 0 0 Delivered]
  by (simp add: get_effective_mode_def is_night_time_def repeat_UserConfig_def default_UserConfig_def
        send_alert_to_user_def send_once_def send_telegram_def get_notify_channels_def
        example_alert_def empty_notifier_def delivered_def Let_def get_local_time_def
        strptime_HM_def is_digit_def digit_value_def time_of_def seconds_def)

section \<open>Mute: properties\<close>

lemma upper_char_idem: "upper_char (upper_char c) = upper_char c"
  unfolding upper_char_def Let_def by auto

lemma upper_idem: "upper (upper s) = upper s"
  by (simp add: upper_def upper_char_idem)

lemma upper_append: "upper (s @ t) = upper s @ upper t"
  by (simp add: upper_def)

lemma upper_USDT: "upper ''USDT'' = ''USDT''"
  by (simp add: upper_def upper_char_def)

lemma upper_mute_symbol_name: "upper (mute_symbol_name symb) = mute_symbol_name symb"
  by (simp add: mute_symbol_name_def Let_def upper_idem upper_append upper_USDT)


lemma blacklist_append_single:
  "strip (upper s) \<noteq> [] \<Longrightarrow> strip (upper s) \<in> set (blacklist_append bl [s])"
  by (simp add: Let_def)

lemma strip_mute_symbol_name_nonempty: "strip (mute_symbol_name symb) \<noteq> []"
proof -
  obtain p where p: "mute_symbol_name symb = p @ ''USDT''"
    by (auto simp: mute_symbol_name_def Let_def endswith_def)
       (metis append_take_drop_id)
  have ns: "\<not> is_space CHR ''T''" "\<not> is_space CHR ''U''" by (simp_all add: is_space_def)
  have "dropWhile is_space (rev (dropWhile is_space (p @ ''USDT''))) \<noteq> []"
  proof -
    have "dropWhile is_space (p @ ''USDT'') = dropWhile is_space p @ ''USDT'' \<or> dropWhile is_space (p @ ''USDT'') = ''USDT''"
      using ns by (simp add: dropWhile_append)
    then show ?thesis using ns by auto
  qed
  with p show ?thesis by (simp add: strip_def)
qed

lemma remove_loop_confirmed:
  "is_confirmed (snd (remove_loop uid ks (c, nt))) uid' k
     \<longleftrightarrow> is_confirmed nt uid' k \<or> (uid' = uid \<and> k \<in> set ks)"
  by (induction ks arbitrary: c nt)
     (auto simp: is_confirmed_add_confirmed is_confirmed_pop_pending)

lemma remove_loop_pending:
  "pending_alerts nt uid = Some al \<Longrightarrow>
     \<exists>al'. pending_alerts (snd (remove_loop uid ks (c, nt))) uid = Some al'
          \<and> (\<forall>k. map_of al' k = (if k \<in> set ks then None else map_of al k))"
proof (induction ks arbitrary: c nt al)
  case Nil
  then show ?case by simp
next
  case (Cons a ks)
  let ?nt1 = "add_confirmed (pop_pending nt uid a) uid a"
  from Cons.prems have "pending_alerts ?nt1 uid = Some (AList.delete a al)"
    by (simp add: pending_add_confirmed pending_pop_pending)
  from Cons.IH [OF this, of "c + 1"] show ?case
    by (auto simp: AList.delete_conv')
qed

lemma remove_loop_count: "fst (remove_loop uid ks (c, nt)) = c + length ks"
  by (induction ks arbitrary: c nt) auto


lemma remove_alerts_for_symbol_matching:
  assumes "pending_alerts nt uid = Some al" "(aid, alert) \<in> set al"
    "symbol_matches alert (upper symb)"
  shows "(\<exists>al'. pending_alerts (snd (remove_alerts_for_symbol nt uid symb)) uid = Some al'
              \<and> map_of al' aid = None)
         \<and> is_confirmed (snd (remove_alerts_for_symbol nt uid symb)) uid aid"
proof -
  let ?ks = "map fst (filter (\<lambda>(aid, alert). symbol_matches alert (upper symb)) al)"
  from assms(2,3) have mem: "aid \<in> set ?ks" by force
  have r: "remove_alerts_for_symbol nt uid symb = remove_loop uid ?ks (0, nt)"
    using assms(1) by (simp add: remove_alerts_for_symbol_def Let_def)
  from remove_loop_pending [OF assms(1), of ?ks 0] obtain al' where
    al': "pending_alerts (snd (remove_loop uid ?ks (0, nt))) uid = Some al'"
      "\<forall>k. map_of al' k = (if k \<in> set ?ks then None else map_of al k)"
    by blast
  from al'(2) mem have "map_of al' aid = None" by metis
  with al'(1)
  have "\<exists>al'. pending_alerts (snd (remove_loop uid ?ks (0, nt))) uid = Some al' \<and> map_of al' aid = None"
    by blast
  moreover from mem have "is_confirmed (snd (remove_loop uid ?ks (0, nt))) uid aid"
    by (simp add: remove_loop_confirmed)
  ultimately show ?thesis by (simp add: r)
qed






section \<open>The repeat loop: properties\<close>

lemma repeat_alerts_sent:
  "repeat_alerts nt uid cfg rc now utc_now env snap st = Inr st' \<Longrightarrow>
   aid \<in> set (rs_sent st') \<Longrightarrow>
     aid \<in> set (rs_sent st)
     \<or> (\<exists>a. (aid, a) \<in> set snap \<and> \<not> is_confirmed nt uid aid \<and> should_monitor cfg (symbol a)
            \<and> sent_count a < rc_max_repeats rc
            \<and> (\<exists>t. last_sent a = Some t \<and> now - t \<ge> seconds (rc_interval_seconds rc)))"
proof (induction snap arbitrary: st)
  case Nil
  then show ?case by simp
next
  case (Cons x snap)
  obtain k a where x: "x = (k, a)" by (cases x)
  show ?case
  proof (cases "is_confirmed nt uid k \<or> \<not> should_monitor cfg (symbol a) \<or> sent_count a \<ge> rc_max_repeats rc")
    case True
    with Cons.prems x have "repeat_alerts nt uid cfg rc now utc_now env snap
             (st\<lparr>rs_to_remove := rs_to_remove st @ [k]\<rparr>) = Inr st'"
      by (auto split: if_splits)
    from Cons.IH [OF this Cons.prems(2)] show ?thesis by auto
  next
    case False
    show ?thesis
    proof (cases "\<exists>t. last_sent a = Some t \<and> now - t \<ge> seconds (rc_interval_seconds rc)")
      case no: False
      with False Cons.prems x have "repeat_alerts nt uid cfg rc now utc_now env snap st = Inr st'"
        by (auto split: option.splits if_splits)
      from Cons.IH [OF this Cons.prems(2)] show ?thesis by auto
    next
      case True
      then obtain t where t: "last_sent a = Some t" "now - t \<ge> seconds (rc_interval_seconds rc)"
        by blast
      with False Cons.prems(1) x obtain success a1 us1 where
        s: "send_once (rs_users st) a cfg now utc_now True (env k) = Inr (success, a1, us1)"
        and r: "repeat_alerts nt uid cfg rc now utc_now env snap
                  (st\<lparr>rs_users := us1,
                      rs_alerts := AList.update k a1 (rs_alerts st),
                      rs_to_remove := (if success then rs_to_remove st else rs_to_remove st @ [k]),
                      rs_sent := rs_sent st @ [k]\<rparr>) = Inr st'"
        by (auto split: sum.splits)
      from Cons.IH [OF r Cons.prems(2)] False t x show ?thesis by auto
    qed
  qed
qed

lemma send_once_alert:
  "send_once us a cfg now utc_now sc outcome = Inr (success, a1, us1) \<Longrightarrow>
     a1 = a\<lparr>sent_count := sent_count a + 1, last_sent := Some now, status := SENT\<rparr>"
  by (auto simp: send_once_def Let_def split: sum.splits if_splits prod.splits)

lemma repeat_alerts_valid:
  assumes "-24 < timezone_offset cfg" "timezone_offset cfg < 24"
  shows "\<exists>st'. repeat_alerts nt uid cfg rc now utc_now env snap st = Inr st'"
proof (induction snap arbitrary: st)
  case Nil
  then show ?case by simp
next
  case (Cons x snap)
  obtain k a where x: "x = (k, a)" by (cases x)
  from send_once_valid [OF assms, of "rs_users st" a now utc_now True "env k"] obtain us1 where
    "send_once (rs_users st) a cfg now utc_now True (env k) =
       Inr (delivered cfg (env k),
            a\<lparr>sent_count := sent_count a + 1, last_sent := Some now, status := SENT\<rparr>, us1)"
    by blast
  with x Cons.IH show ?case
    by (simp split: option.splits)
qed

lemma repeat_loop_user_valid:
  assumes "\<forall>cfg. us uid = Some cfg \<longrightarrow> -24 < timezone_offset cfg \<and> timezone_offset cfg < 24"
  shows "\<exists>r. repeat_loop_user us nt uid now utc_now env = Inr r"
proof (cases "\<exists>al cfg. pending_alerts nt uid = Some al \<and> us uid = Some cfg \<and> is_active cfg")
  case False
  then show ?thesis
    by (auto simp: repeat_loop_user_def split: option.splits)
next
  case True
  then obtain al cfg where h: "pending_alerts nt uid = Some al" "us uid = Some cfg" "is_active cfg"
    by blast
  with assms have tz: "-24 < timezone_offset cfg" "timezone_offset cfg < 24" by auto
  from is_night_time_valid [OF tz, of utc_now] obtain b where b: "is_night_time cfg utc_now = Inr b"
    by blast
  then have "\<exists>rc. get_repeat_config cfg utc_now = Inr rc"
    by (simp add: get_repeat_config_def Let_def)
  then obtain rc where rc: "get_repeat_config cfg utc_now = Inr rc"
    by blast
  from get_effective_mode_valid [OF tz, of utc_now] obtain m where m: "get_effective_mode cfg utc_now = Inr m"
    by blast
  from repeat_alerts_valid [OF tz, of nt uid rc now utc_now env al
      "\<lparr>rs_users = us, rs_alerts = al, rs_to_remove = [], rs_sent = []\<rparr>"]
  obtain st' where "repeat_alerts nt uid cfg rc now utc_now env al
      \<lparr>rs_users = us, rs_alerts = al, rs_to_remove = [], rs_sent = []\<rparr> = Inr st'"
    by blast
  with h b rc m show ?thesis
    by (simp add: repeat_loop_user_def)
qed

lemma repeat_loop_user_sent:
  assumes "repeat_loop_user us nt uid now utc_now env = Inr (us', nt', sent)" and "aid \<in> set sent"
  shows "\<exists>cfg rc al a. us uid = Some cfg \<and> is_active cfg \<and> get_repeat_config cfg utc_now = Inr rc
           \<and> pending_alerts nt uid = Some al \<and> (aid, a) \<in> set al
           \<and> \<not> is_confirmed nt uid aid \<and> should_monitor cfg (symbol a)
           \<and> sent_count a < rc_max_repeats rc"
proof -
  from assms obtain al where al: "pending_alerts nt uid = Some al"
    by (auto simp: repeat_loop_user_def split: option.splits)
  from assms al obtain cfg where cfg: "us uid = Some cfg" "is_active cfg"
    by (auto simp: repeat_loop_user_def split: option.splits if_splits)
  from assms al cfg obtain rc where rc: "get_repeat_config cfg utc_now = Inr rc"
    by (auto simp: repeat_loop_user_def split: sum.splits)
  from assms al cfg rc obtain st where
    st: "repeat_alerts nt uid cfg rc now utc_now env al
           \<lparr>rs_users = us, rs_alerts = al, rs_to_remove = [], rs_sent = []\<rparr> = Inr st"
    and sent: "sent = rs_sent st"
    by (auto simp: repeat_loop_user_def split: sum.splits if_splits)
  from repeat_alerts_sent [OF st, of aid] assms(2) sent
  obtain a where "(aid, a) \<in> set al" "\<not> is_confirmed nt uid aid" "should_monitor cfg (symbol a)"
    "sent_count a < rc_max_repeats rc"
    by auto
  with al cfg rc show ?thesis by blast
qed

lemma repeat_loop_user_inactive:
  assumes "us uid = None \<or> (\<exists>cfg. us uid = Some cfg \<and> \<not> is_active cfg)"
  shows "\<exists>nt'. repeat_loop_user us nt uid now utc_now env = Inr (us, nt', [])
           \<and> pending_alerts nt' uid = None"
  using assms by (auto simp: repeat_loop_user_def split: option.splits)


lemma set_update_subset: "set (AList.update k v al) \<subseteq> insert (k, v) (set al)"
  by (induction al) auto

lemma set_pop_all_subset: "set (pop_all ks al) \<subseteq> set al"
proof (induction ks arbitrary: al)
  case Nil
  then show ?case by simp
next
  case (Cons k ks)
  have "set (AList.delete k al) \<subseteq> set al" by (auto simp: AList.delete_eq)
  with Cons.IH [of "AList.delete k al"] show ?case by auto
qed

lemma repeat_alerts_bound:
  "repeat_alerts nt uid cfg rc now utc_now env snap st = Inr st' \<Longrightarrow>
   rc_max_repeats rc \<le> M \<Longrightarrow>
   \<forall>x \<in> set (rs_alerts st). sent_count (snd x) \<le> M \<Longrightarrow>
     \<forall>x \<in> set (rs_alerts st'). sent_count (snd x) \<le> M"
proof (induction snap arbitrary: st)
  case Nil
  then show ?case by simp
next
  case (Cons x snap)
  obtain k a where x: "x = (k, a)" by (cases x)
  show ?case
  proof (cases "is_confirmed nt uid k \<or> \<not> should_monitor cfg (symbol a) \<or> sent_count a \<ge> rc_max_repeats rc")
    case True
    with Cons.prems x have "repeat_alerts nt uid cfg rc now utc_now env snap
             (st\<lparr>rs_to_remove := rs_to_remove st @ [k]\<rparr>) = Inr st'"
      by (auto split: if_splits)
    from Cons.IH [OF this Cons.prems(2)] Cons.prems(3) show ?thesis by simp
  next
    case False
    show ?thesis
    proof (cases "\<exists>t. last_sent a = Some t \<and> now - t \<ge> seconds (rc_interval_seconds rc)")
      case no: False
      with False Cons.prems x have "repeat_alerts nt uid cfg rc now utc_now env snap st = Inr st'"
        by (auto split: option.splits if_splits)
      from Cons.IH [OF this Cons.prems(2,3)] show ?thesis .
    next
      case True
      then obtain t where t: "last_sent a = Some t" "now - t \<ge> seconds (rc_interval_seconds rc)"
        by blast
      with False Cons.prems(1) x obtain success a1 us1 where
        s: "send_once (rs_users st) a cfg now utc_now True (env k) = Inr (success, a1, us1)"
        and r: "repeat_alerts nt uid cfg rc now utc_now env snap
                  (st\<lparr>rs_users := us1,
                      rs_alerts := AList.update k a1 (rs_alerts st),
                      rs_to_remove := (if success then rs_to_remove st else rs_to_remove st @ [k]),
                      rs_sent := rs_sent st @ [k]\<rparr>) = Inr st'"
        by (auto split: sum.splits)
      from send_once_alert [OF s] False Cons.prems(2) have "sent_count a1 \<le> M" by simp
      with Cons.prems(3) set_update_subset [of k a1 "rs_alerts st"]
      have "\<forall>x \<in> set (AList.update k a1 (rs_alerts st)). sent_count (snd x) \<le> M"
        by auto
      with Cons.IH [OF r Cons.prems(2)] show ?thesis by simp
    qed
  qed
qed

lemma repeat_loop_user_bound:
  assumes "repeat_loop_user us nt uid now utc_now env = Inr (us', nt', sent)"
    and "us uid = Some cfg" and "get_repeat_config cfg utc_now = Inr rc" and "rc_max_repeats rc \<le> M"
    and "pending_alerts nt uid = Some al" and "\<forall>x \<in> set al. sent_count (snd x) \<le> M"
    and "pending_alerts nt' uid = Some al'"
  shows "\<forall>x \<in> set al'. sent_count (snd x) \<le> M"
proof (cases "al' = al")
  case True
  with assms(6) show ?thesis by simp
next
  case False
  with assms(1,2,3,5,7) obtain st where
    st: "repeat_alerts nt uid cfg rc now utc_now env al
           \<lparr>rs_users = us, rs_alerts = al, rs_to_remove = [], rs_sent = []\<rparr> = Inr st"
    and al': "al' = pop_all (rs_to_remove st) (rs_alerts st)"
    by (auto simp: repeat_loop_user_def split: sum.splits if_splits)
  from repeat_alerts_bound [OF st assms(4)] assms(6)
  have "\<forall>x \<in> set (rs_alerts st). sent_count (snd x) \<le> M" by simp
  with al' set_pop_all_subset [of "rs_to_remove st" "rs_alerts st"] show ?thesis by auto
qed

lemma notifier_mute_symbol_for_user:
  "notifier (snd (snd (mute_symbol_for_user us tbot now uid symb minutes)))
     = snd (remove_alerts_for_symbol (notifier tbot) uid (mute_symbol_name symb))"
  by (simp add: mute_symbol_for_user_def Let_def split: prod.splits)


lemma confirm_alert_confirms:
  "confirm_alert nt0 t uid x = Inr (r, nt, Some (k, a)) \<Longrightarrow> is_confirmed nt uid k"
proof -
  assume h: "confirm_alert nt0 t uid x = Inr (r, nt, Some (k, a))"
  from h obtain al where al: "pending_alerts nt0 uid = Some al"
    by (auto simp: confirm_alert_def Let_def ensure_simps confirmed_add_ensured
             split: option.splits)
  from h al obtain nt1 where
    "confirm_pending (ensure_confirmed_set nt0 uid) t uid k = Inr (nt, a)"
    by (auto simp: confirm_alert_def Let_def ensure_simps confirmed_add_ensured
             split: option.splits if_splits sum.splits)
  then obtain alert where
    "pending_pop (add_confirmed nt0 uid k) uid k = Inr (alert, nt)"
    by (auto simp: confirm_pending_def confirmed_add_ensured split: sum.splits)
  then have "confirmed_ids nt = confirmed_ids (add_confirmed nt0 uid k)"
    by (auto simp: pending_pop_def split: option.splits)
  then have "is_confirmed nt uid k = is_confirmed (add_confirmed nt0 uid k) uid k"
    by (simp add: is_confirmed_def)
  then show ?thesis by (simp add: is_confirmed_add_confirmed)
qed

lemma should_monitor_blacklisted:
  assumes "blocked \<in> set (blacklist cfg)"
    and "upper s = blocked \<or> str_remove ''USDT'' (upper s) = str_remove ''USDT'' blocked"
  shows "\<not> should_monitor cfg s"
  using assms by (auto simp: should_monitor_def Let_def list_ex_iff)

lemma pending_key_unique:
  assumes "distinct (map fst al)" and "(k, a) \<in> set al" and "(k, a') \<in> set al"
  shows "a = a'"
  using assms by (meson eq_key_imp_eq_value)

lemma blacklist_after_mute:
  assumes "mute_symbol_for_user us0 tbot0 t uid symb m = (n, us, tbot)" and "us0 uid \<noteq> None"
  shows "\<exists>cfg. us uid = Some cfg \<and> strip (mute_symbol_name symb) \<in> set (blacklist cfg)"
proof -
  from assms(1) have "us = add_to_blacklist us0 uid [mute_symbol_name symb]"
    by (auto simp: mute_symbol_for_user_def Let_def split: prod.splits)
  with assms(2) strip_mute_symbol_name_nonempty [of symb] show ?thesis
    by (auto simp: add_to_blacklist_def Let_def upper_mute_symbol_name)
qed

lemma send_alert_to_user_counts:
  assumes "send_alert_to_user us nt alert cfg now utc_now outcome = Inr (us', nt', alert')"
  shows "sent_count alert' = sent_count alert + 1"
proof -
  let ?alert0 = "alert\<lparr>target_user_id := user_id cfg\<rparr>"
  from assms obtain sc success us1 where
    "send_once us ?alert0 cfg now utc_now sc outcome = Inr (success, alert', us1)"
    by (auto simp: send_alert_to_user_def Let_def split: sum.splits if_splits)
  from send_once_alert [OF this] show ?thesis by simp
qed

text \<open>The definitions unfolded to run the examples below.\<close>

lemmas repeat_loop_eval = repeat_loop_user_def get_repeat_config_def get_effective_mode_def
  is_night_time_def repeat_UserConfig_def no_repeats_UserConfig_def default_UserConfig_def
  send_alert_to_user_def send_once_def send_telegram_def get_notify_channels_def
  update_user_is_active_def example_alert_def example_notifier_def empty_notifier_def
  is_confirmed_def should_monitor_def upper_def upper_char_def seconds_def Let_def
  all_delivered_def forbidden_first_def

text \<open>
  C6 as stated fails in two ways. The first send of \<open>send_alert_to_user\<close> is
  unconditional: with \<open>max_repeats = 0\<close> the alert is pending with \<open>sent_count = 1\<close>,
  above the effective maximum. And the loop tests \<open>is_active\<close> once per user and pass:
  when the send of \<open>abc12345\<close> is refused (\<open>Forbidden\<close>) the user is marked inactive at
  once, and the same pass still sends \<open>def67890\<close> to that user.
\<close>

theorem repeat_loop_counterexample:
  "get_effective_mode no_repeats_UserConfig 0 = Inr REPEAT
   \<and> get_repeat_config no_repeats_UserConfig 0
       = Inr \<lparr>rc_enabled = True, rc_interval_seconds = 10, rc_max_repeats = 0, rc_require_confirm = True\<rparr>
   \<and> send_alert_to_user [''u2'' \<mapsto> no_repeats_UserConfig] empty_notifier
         (example_alert ''aaa11111'' ''YUSDT'' 0) no_repeats_UserConfig 0 0 Delivered
       = Inr ([''u2'' \<mapsto> no_repeats_UserConfig],
              \<lparr>pending_alerts =
                 [''u2'' \<mapsto> [(''aaa11111'',
                     (example_alert ''aaa11111'' ''YUSDT'' 0)
                       \<lparr>sent_count := 1, last_sent := Some 0, status := SENT\<rparr>)]],
               confirmed_ids = Map.empty\<rparr>,
              (example_alert ''aaa11111'' ''YUSDT'' 0)
                \<lparr>sent_count := 1, last_sent := Some 0, status := SENT\<rparr>)
   \<and> repeat_alerts example_notifier ''u2'' repeat_UserConfig
         \<lparr>rc_enabled = True, rc_interval_seconds = 10, rc_max_repeats = 30, rc_require_confirm = True\<rparr>
         (seconds 10) 0 forbidden_first
         [(''abc12345'', example_alert ''abc12345'' ''YUSDT'' 1)]
         \<lparr>rs_users = [''u2'' \<mapsto> repeat_UserConfig],
          rs_alerts = [(''abc12345'', example_alert ''abc12345'' ''YUSDT'' 1),
                       (''def67890'', example_alert ''def67890'' ''ZUSDT'' 1)],
          rs_to_remove = [], rs_sent = []\<rparr>
       = Inr \<lparr>rs_users = [''u2'' \<mapsto> repeat_UserConfig\<lparr>is_active := False\<rparr>],
              rs_alerts = [(''abc12345'',
                            (example_alert ''abc12345'' ''YUSDT'' 1)
                              \<lparr>sent_count := 2, last_sent := Some (seconds 10), status := SENT\<rparr>),
                           (''def67890'', example_alert ''def67890'' ''ZUSDT'' 1)],
              rs_to_remove = [''abc12345''], rs_sent = [''abc12345'']\<rparr>
   \<and> repeat_loop_user [''u2'' \<mapsto> repeat_UserConfig] example_notifier ''u2'' (seconds 10) 0
         forbidden_first
       = Inr ([''u2'' \<mapsto> repeat_UserConfig\<lparr>is_active := False\<rparr>],
              \<lparr>pending_alerts =
                 [''u2'' \<mapsto> [(''def67890'',
                     (example_alert ''def67890'' ''ZUSDT'' 1)
                       \<lparr>sent_count := 2, last_sent := Some (seconds 10), status := SENT\<rparr>)]],
               confirmed_ids = Map.empty\<rparr>,
              [''abc12345'', ''def67890''])"
  by (simp add: repeat_loop_eval)


text \<open>
  C6, amended. The first send of an alert is unconditional: \<open>send_alert_to_user\<close>, when it
  returns, has counted one attempt whatever \<open>max_repeats\<close> is. In a pass of the repeat loop
  over a user's pending alerts that returns:
  every alert sent belongs to an active, registered user, is not confirmed, has a symbol the
  user monitors, and had \<open>sent_count\<close> below the \<open>max_repeats\<close> effective in that pass, so
  the send leaves it at most \<open>max_repeats\<close>;
  a bound \<open>M\<close> at least the effective \<open>max_repeats\<close> that holds for every pending alert
  before the pass holds after it;
  an alert whose id is in the user's confirmed set is not sent, in particular the alert that
  \<open>confirm_alert\<close> just acknowledged and every pending alert that matched the symbol of a
  mute just performed;
  a pending alert whose symbol the user's blacklist covers (\<open>should_monitor\<close> is false) is
  not sent, in particular, once \<open>mute\<close> has put a symbol in the blacklist of a registered
  user, any pending alert for that symbol or its base asset;
  and for a user who is unknown or inactive when the pass starts nothing is sent and the
  user's pending alerts are dropped.
  The pending dictionary has one entry per key, which the clauses on the blacklist assume.
\<close>

theorem repeat_loop_sends:
  assumes "repeat_loop_user us nt uid now utc_now env = Inr (us', nt', sent)"
  shows "(\<forall>us1 nt1 alert cfg t utc outcome us2 nt2 alert'.
            send_alert_to_user us1 nt1 alert cfg t utc outcome = Inr (us2, nt2, alert')
            \<longrightarrow> sent_count alert' = sent_count alert + 1)
       \<and> (\<forall>aid \<in> set sent.
            \<exists>cfg rc al a. us uid = Some cfg \<and> is_active cfg
              \<and> get_repeat_config cfg utc_now = Inr rc
              \<and> pending_alerts nt uid = Some al \<and> (aid, a) \<in> set al
              \<and> \<not> is_confirmed nt uid aid \<and> should_monitor cfg (symbol a)
              \<and> sent_count a + 1 \<le> rc_max_repeats rc)
       \<and> (\<forall>cfg rc M al al'.
            us uid = Some cfg \<and> get_repeat_config cfg utc_now = Inr rc \<and> rc_max_repeats rc \<le> M
            \<and> pending_alerts nt uid = Some al \<and> (\<forall>x \<in> set al. sent_count (snd x) \<le> M)
            \<and> pending_alerts nt' uid = Some al'
            \<longrightarrow> (\<forall>x \<in> set al'. sent_count (snd x) \<le> M))
       \<and> (\<forall>k. is_confirmed nt uid k \<longrightarrow> k \<notin> set sent)
       \<and> (\<forall>nt0 t x r k a. confirm_alert nt0 t uid x = Inr (r, nt, Some (k, a)) \<longrightarrow> k \<notin> set sent)
       \<and> (\<forall>us0 tbot0 t symb m n tbot al k a.
            mute_symbol_for_user us0 tbot0 t uid symb m = (n, us, tbot) \<and> notifier tbot = nt
            \<and> pending_alerts (notifier tbot0) uid = Some al \<and> (k, a) \<in> set al
            \<and> (upper (symbol a) = mute_symbol_name symb
                 \<or> str_remove ''USDT'' (upper (symbol a)) = str_remove ''USDT'' (mute_symbol_name symb))
            \<longrightarrow> k \<notin> set sent)
       \<and> (\<forall>cfg al k a.
            us uid = Some cfg \<and> pending_alerts nt uid = Some al \<and> distinct (map fst al)
            \<and> (k, a) \<in> set al \<and> \<not> should_monitor cfg (symbol a)
            \<longrightarrow> k \<notin> set sent)
       \<and> (\<forall>us0 tbot0 t symb m n tbot al k a.
            mute_symbol_for_user us0 tbot0 t uid symb m = (n, us, tbot) \<and> us0 uid \<noteq> None
            \<and> pending_alerts nt uid = Some al \<and> distinct (map fst al) \<and> (k, a) \<in> set al
            \<and> (upper (symbol a) = strip (mute_symbol_name symb)
                 \<or> str_remove ''USDT'' (upper (symbol a))
                     = str_remove ''USDT'' (strip (mute_symbol_name symb)))
            \<longrightarrow> k \<notin> set sent)
       \<and> (us uid = None \<or> (\<exists>cfg. us uid = Some cfg \<and> \<not> is_active cfg)
            \<longrightarrow> sent = [] \<and> pending_alerts nt' uid = None)"
proof -
  have monitored: "k \<notin> set sent"
    if "us uid = Some cfg" "pending_alerts nt uid = Some al" "distinct (map fst al)"
      "(k, a) \<in> set al" "\<not> should_monitor cfg (symbol a)" for cfg al k a
  proof
    assume "k \<in> set sent"
    from repeat_loop_user_sent [OF assms this] that(1,2) obtain a' where
      "(k, a') \<in> set al" "should_monitor cfg (symbol a')"
      by auto
    with pending_key_unique [OF that(3) that(4), of a'] that(5) show False by simp
  qed
  show ?thesis
  proof (intro conjI ballI allI impI)
    fix us1 nt1 alert cfg t utc outcome us2 nt2 alert'
    assume "send_alert_to_user us1 nt1 alert cfg t utc outcome = Inr (us2, nt2, alert')"
    then show "sent_count alert' = sent_count alert + 1" by (rule send_alert_to_user_counts)
  next
    fix aid assume "aid \<in> set sent"
    from repeat_loop_user_sent [OF assms this]
    show "\<exists>cfg rc al a. us uid = Some cfg \<and> is_active cfg
              \<and> get_repeat_config cfg utc_now = Inr rc
              \<and> pending_alerts nt uid = Some al \<and> (aid, a) \<in> set al
              \<and> \<not> is_confirmed nt uid aid \<and> should_monitor cfg (symbol a)
              \<and> sent_count a + 1 \<le> rc_max_repeats rc"
      by fastforce
  next
    fix cfg rc M al al' x
    assume "us uid = Some cfg \<and> get_repeat_config cfg utc_now = Inr rc \<and> rc_max_repeats rc \<le> M
            \<and> pending_alerts nt uid = Some al \<and> (\<forall>x \<in> set al. sent_count (snd x) \<le> M)
            \<and> pending_alerts nt' uid = Some al'"
      and "x \<in> set al'"
    with repeat_loop_user_bound [OF assms, of cfg rc M al al']
    show "sent_count (snd x) \<le> M" by blast
  next
    fix k assume "is_confirmed nt uid k"
    with repeat_loop_user_sent [OF assms, of k] show "k \<notin> set sent" by blast
  next
    fix nt0 t x r k a
    assume "confirm_alert nt0 t uid x = Inr (r, nt, Some (k, a))"
    then have "is_confirmed nt uid k" by (rule confirm_alert_confirms)
    with repeat_loop_user_sent [OF assms, of k] show "k \<notin> set sent" by blast
  next
    fix us0 tbot0 t symb m n tbot al k a
    assume h: "mute_symbol_for_user us0 tbot0 t uid symb m = (n, us, tbot) \<and> notifier tbot = nt
            \<and> pending_alerts (notifier tbot0) uid = Some al \<and> (k, a) \<in> set al
            \<and> (upper (symbol a) = mute_symbol_name symb
                 \<or> str_remove ''USDT'' (upper (symbol a)) = str_remove ''USDT'' (mute_symbol_name symb))"
    then have m: "symbol_matches a (upper (mute_symbol_name symb))"
      by (auto simp: symbol_matches_def Let_def upper_mute_symbol_name)
    from h notifier_mute_symbol_for_user [of us0 tbot0 t uid symb m]
    have "nt = snd (remove_alerts_for_symbol (notifier tbot0) uid (mute_symbol_name symb))"
      by simp
    with h m remove_alerts_for_symbol_matching [of "notifier tbot0" uid al k a "mute_symbol_name symb"]
    have "is_confirmed nt uid k" by simp
    with repeat_loop_user_sent [OF assms, of k] show "k \<notin> set sent" by blast
  next
    fix cfg al k a
    assume "us uid = Some cfg \<and> pending_alerts nt uid = Some al \<and> distinct (map fst al)
            \<and> (k, a) \<in> set al \<and> \<not> should_monitor cfg (symbol a)"
    then show "k \<notin> set sent" using monitored by blast
  next
    fix us0 tbot0 t symb m n tbot al k a
    assume h: "mute_symbol_for_user us0 tbot0 t uid symb m = (n, us, tbot) \<and> us0 uid \<noteq> None
            \<and> pending_alerts nt uid = Some al \<and> distinct (map fst al) \<and> (k, a) \<in> set al
            \<and> (upper (symbol a) = strip (mute_symbol_name symb)
                 \<or> str_remove ''USDT'' (upper (symbol a))
                     = str_remove ''USDT'' (strip (mute_symbol_name symb)))"
    with blacklist_after_mute [of us0 tbot0 t uid symb m n us tbot] obtain cfg where
      cfg: "us uid = Some cfg" "strip (mute_symbol_name symb) \<in> set (blacklist cfg)"
      by blast
    from should_monitor_blacklisted [OF cfg(2), of "symbol a"] h
    have "\<not> should_monitor cfg (symbol a)" by blast
    with cfg(1) h monitored show "k \<notin> set sent" by blast
  next
    assume "us uid = None \<or> (\<exists>cfg. us uid = Some cfg \<and> \<not> is_active cfg)"
    with repeat_loop_user_inactive [of us uid nt now utc_now env] assms
    show "sent = []" "pending_alerts nt' uid = None" by auto
  qed
qed



text \<open>
  After \<open>abc12345\<close> is acknowledged, a pass ten seconds after the last send resends
  \<open>def67890\<close> only. And with \<open>YUSDT\<close> in the user's blacklist and both alerts still
  pending and unconfirmed, the pass drops the alert for \<open>YUSDT\<close> and resends only the one
  for \<open>ZUSDT\<close>.
\<close>

theorem repeat_loop_sends_witness:
  "confirm_alert example_notifier 5 ''u2'' ''abc12345''
     = Inr (True,
        \<lparr>pending_alerts = [''u2'' \<mapsto> [(''def67890'', example_alert ''def67890'' ''ZUSDT'' 1)]],
         confirmed_ids = [''u2'' \<mapsto> {''abc12345''}]\<rparr>,
        Some (''abc12345'',
              (example_alert ''abc12345'' ''YUSDT'' 1)\<lparr>status := CONFIRMED, confirmed_at := Some 5\<rparr>))
   \<and> repeat_loop_user [''u2'' \<mapsto> repeat_UserConfig]
         \<lparr>pending_alerts = [''u2'' \<mapsto> [(''def67890'', example_alert ''def67890'' ''ZUSDT'' 1)]],
          confirmed_ids = [''u2'' \<mapsto> {''abc12345''}]\<rparr>
         ''u2'' (seconds 10) 0 all_delivered
       = Inr ([''u2'' \<mapsto> repeat_UserConfig],
              \<lparr>pending_alerts =
                 [''u2'' \<mapsto> [(''def67890'',
                     (example_alert ''def67890'' ''ZUSDT'' 1)
                       \<lparr>sent_count := 2, last_sent := Some (seconds 10), status := SENT\<rparr>)]],
               confirmed_ids = [''u2'' \<mapsto> {''abc12345''}]\<rparr>,
              [''def67890''])
   \<and> ''abc12345'' \<notin> set [''def67890'']
   \<and> \<not> should_monitor (repeat_UserConfig\<lparr>blacklist := [''YUSDT'']\<rparr>) ''YUSDT''
   \<and> repeat_loop_user [''u2'' \<mapsto> repeat_UserConfig\<lparr>blacklist := [''YUSDT'']\<rparr>]
         example_notifier ''u2'' (seconds 10) 0 all_delivered
       = Inr ([''u2'' \<mapsto> repeat_UserConfig\<lparr>blacklist := [''YUSDT'']\<rparr>],
              \<lparr>pending_alerts =
                 [''u2'' \<mapsto> [(''def67890'',
                     (example_alert ''def67890'' ''ZUSDT'' 1)
                       \<lparr>sent_count := 2, last_sent := Some (seconds 10), status := SENT\<rparr>)]],
               confirmed_ids = Map.empty\<rparr>,
              [''def67890''])"
proof -
  have c: "confirm_alert example_notifier 5 ''u2'' ''abc12345''
     = Inr (True,
        \<lparr>pending_alerts = [''u2'' \<mapsto> [(''def67890'', example_alert ''def67890'' ''ZUSDT'' 1)]],
         confirmed_ids = [''u2'' \<mapsto> {''abc12345''}]\<rparr>,
        Some (''abc12345'',
              (example_alert ''abc12345'' ''YUSDT'' 1)\<lparr>status := CONFIRMED, confirmed_at := Some 5\<rparr>))"
    by (simp add: confirm_alert_def confirm_pending_def confirmed_add_def pending_pop_def
          example_notifier_def example_alert_def ensure_confirmed_set_def)
  have e: "repeat_loop_user [''u2'' \<mapsto> repeat_UserConfig]
         \<lparr>pending_alerts = [''u2'' \<mapsto> [(''def67890'', example_alert ''def67890'' ''ZUSDT'' 1)]],
          confirmed_ids = [''u2'' \<mapsto> {''abc12345''}]\<rparr>
         ''u2'' (seconds 10) 0 all_delivered
       = Inr ([''u2'' \<mapsto> repeat_UserConfig],
              \<lparr>pending_alerts =
                 [''u2'' \<mapsto> [(''def67890'',
                     (example_alert ''def67890'' ''ZUSDT'' 1)
                       \<lparr>sent_count := 2, last_sent := Some (seconds 10), status := SENT\<rparr>)]],
               confirmed_ids = [''u2'' \<mapsto> {''abc12345''}]\<rparr>,
              [''def67890''])"
    by (simp add: repeat_loop_eval)
  have m: "repeat_loop_user [''u2'' \<mapsto> repeat_UserConfig\<lparr>blacklist := [''YUSDT'']\<rparr>]
         example_notifier ''u2'' (seconds 10) 0 all_delivered
       = Inr ([''u2'' \<mapsto> repeat_UserConfig\<lparr>blacklist := [''YUSDT'']\<rparr>],
              \<lparr>pending_alerts =
                 [''u2'' \<mapsto> [(''def67890'',
                     (example_alert ''def67890'' ''ZUSDT'' 1)
                       \<lparr>sent_count := 2, last_sent := Some (seconds 10), status := SENT\<rparr>)]],
               confirmed_ids = Map.empty\<rparr>,
              [''def67890''])"
    by (simp add: repeat_loop_eval)
  have n: "\<not> should_monitor (repeat_UserConfig\<lparr>blacklist := [''YUSDT'']\<rparr>) ''YUSDT''"
    by (simp add: repeat_loop_eval)
  note confirmed = repeat_loop_sends [OF e, THEN conjunct2, THEN conjunct2, THEN conjunct2,
      THEN conjunct1, rule_format, of "''abc12345''"]
  note blacklisted = repeat_loop_sends [OF m, THEN conjunct2, THEN conjunct2, THEN conjunct2,
      THEN conjunct2, THEN conjunct2, THEN conjunct2, THEN conjunct1, rule_format,
      of "repeat_UserConfig\<lparr>blacklist := [''YUSDT'']\<rparr>"
         "[(''abc12345'', example_alert ''abc12345'' ''YUSDT'' 1),
           (''def67890'', example_alert ''def67890'' ''ZUSDT'' 1)]"
         "''abc12345''" "example_alert ''abc12345'' ''YUSDT'' 1"]
  have "''abc12345'' \<notin> set [''def67890'']"
    by (rule confirmed) (simp add: is_confirmed_def)
  moreover have "''abc12345'' \<notin> set [''def67890'']"
    using n by (intro blacklisted) (simp add: example_notifier_def example_alert_def)
  ultimately show ?thesis using c e m n by simp
qed

end
